theory Spec2Isabelle
  imports Complex_Main "HOL-Library.AList" "HOL-Library.Multiset" "HOL-Library.Log_Nat"
begin

section \<open>Values of the Python program\<close>

text \<open>
  The helpers of \<^verbatim>\<open>presence_analyzer/utils.py\<close> work on Python integers, on
  \<^verbatim>\<open>datetime.date\<close> and \<^verbatim>\<open>datetime.time\<close> objects and on dictionaries.
  Python integers are unbounded, so they are \<^typ>\<open>int\<close>. A dictionary is an association
  list with distinct keys: iterating it yields the keys in list order, \<^verbatim>\<open>d[k]\<close> is the
  lookup \<^term>\<open>map_of d k\<close> (a missing key raises \<^verbatim>\<open>KeyError\<close>) and \<^verbatim>\<open>d[k] = v\<close>
  is \<^term>\<open>AList.update k v d\<close>, which keeps the position of a key that is already there
  and appends a new one. Exceptions are values of \<open>py_error\<close>; a function that can raise
  returns \<open>py_error + 'a\<close>.
\<close>

datatype py_error =
  IOError | ValueError | TypeError | KeyError | IndexError | AttributeError
  | UnboundLocalError | XMLSyntaxError | OverflowError

type_synonym ('k, 'v) dict = "('k \<times> 'v) list"

text \<open>
  A \<^verbatim>\<open>datetime.time\<close> as the program reads it: \<^verbatim>\<open>.hour\<close>, \<^verbatim>\<open>.minute\<close>, \<^verbatim>\<open>.second\<close>.
  The loader builds times from the format \<^verbatim>\<open>%H:%M:%S\<close>, which has no finer field.
\<close>

record time_of_day =
  hour :: int
  minute :: int
  second :: int

record date =
  year :: int
  month :: int
  day :: int

text \<open>
  The dictionaries \<^verbatim>\<open>{'start': ..., 'end': ...}\<close>: the loader stores two times of day
  per date, \<^verbatim>\<open>mean_time_of_presence\<close> first two lists of seconds and then two means per
  weekday. (\<open>end\<close> is a keyword, so the field is \<open>end'\<close>.)
\<close>

record 'a start_end =
  start :: 'a
  end' :: 'a

type_synonym presence = "time_of_day start_end"

definition valid_time :: "time_of_day \<Rightarrow> bool" where
  "valid_time t =
     (0 \<le> hour t \<and> hour t < 24 \<and> 0 \<le> minute t \<and> minute t < 60 \<and> 0 \<le> second t \<and> second t < 60)"

text \<open>Python's order on times of day: hour, then minute, then second.\<close>

definition time_less :: "time_of_day \<Rightarrow> time_of_day \<Rightarrow> bool" where
  "time_less a b =
     (hour a < hour b \<or> (hour a = hour b \<and>
        (minute a < minute b \<or> (minute a = minute b \<and> second a < second b))))"

subsection \<open>The weekday of a date\<close>

text \<open>
  \<^verbatim>\<open>date.weekday()\<close> is \<^verbatim>\<open>(self.toordinal() + 6) % 7\<close> in the standard library, with
  \<^verbatim>\<open>toordinal\<close> the day number in the proleptic Gregorian calendar
  (\<^verbatim>\<open>_days_before_year(y) + _days_before_month(y, m) + d\<close>). Monday is 0, Sunday is 6.
\<close>

definition is_leap :: "int \<Rightarrow> bool" where
  "is_leap y = (y mod 4 = 0 \<and> (y mod 100 \<noteq> 0 \<or> y mod 400 = 0))"

definition days_before_year :: "int \<Rightarrow> int" where
  "days_before_year yr = (let y = yr - 1 in y * 365 + y div 4 - y div 100 + y div 400)"

definition DAYS_BEFORE_MONTH :: "int list" where
  "DAYS_BEFORE_MONTH = [-1, 0, 31, 59, 90, 120, 151, 181, 212, 243, 273, 304, 334]"

definition days_before_month :: "int \<Rightarrow> int \<Rightarrow> int" where
  "days_before_month yr m =
     DAYS_BEFORE_MONTH ! nat m + (if m > 2 \<and> is_leap yr then 1 else 0)"

definition toordinal :: "date \<Rightarrow> int" where
  "toordinal d = days_before_year (year d) + days_before_month (year d) (month d) + day d"

definition weekday :: "date \<Rightarrow> nat" where
  "weekday d = nat ((toordinal d + 6) mod 7)"

section \<open>Interval math\<close>

definition seconds_since_midnight :: "time_of_day \<Rightarrow> int" where
  "seconds_since_midnight time_to_calc =
     hour time_to_calc * 3600 + minute time_to_calc * 60 + second time_to_calc"

definition interval :: "time_of_day \<Rightarrow> time_of_day \<Rightarrow> int" where
  "interval st en = seconds_since_midnight en - seconds_since_midnight st"

section \<open>Aggregators\<close>

subsection \<open>\<^verbatim>\<open>group_by_weekday\<close>\<close>

text \<open>
  The loop \<^verbatim>\<open>for date in items\<close> runs over the keys of the dictionary; its body reads
  \<^verbatim>\<open>items[date]\<close> and appends to \<^verbatim>\<open>result[date.weekday()]\<close>. The list \<open>result\<close> is mutated
  in place, so it is the loop's accumulator. An index outside the list raises
  \<^verbatim>\<open>IndexError\<close>, a key outside the dictionary \<^verbatim>\<open>KeyError\<close>.
\<close>

fun group_by_weekday_loop ::
  "(date, presence) dict \<Rightarrow> date list \<Rightarrow> int list list \<Rightarrow> py_error + int list list" where
  "group_by_weekday_loop items [] result = Inr result"
| "group_by_weekday_loop items (d # rest) result =
     (case map_of items d of
        None \<Rightarrow> Inl KeyError
      | Some entry \<Rightarrow>
          (let st = start entry; en = end' entry; i = weekday d in
           if i < length result
           then group_by_weekday_loop items rest (result[i := result ! i @ [interval st en]])
           else Inl IndexError))"

definition group_by_weekday :: "(date, presence) dict \<Rightarrow> py_error + int list list" where
  "group_by_weekday items =
     group_by_weekday_loop items (map fst items) [[], [], [], [], [], [], []]"

subsection \<open>\<^verbatim>\<open>mean\<close> and \<^verbatim>\<open>mean_time_of_presence\<close>\<close>

text \<open>
  \<^verbatim>\<open>mean\<close> returns the integer \<^verbatim>\<open>0\<close> for an empty list and a float otherwise. A Python
  float is an IEEE 754 double; a finite double is represented by the rational number it
  denotes. The conversion \<^verbatim>\<open>float(n)\<close> and the division \<^verbatim>\<open>/\<close> give the double nearest to
  the exact result, a tie going to the even significand: \<open>round_double\<close> keeps 53
  significant bits. \<open>exponent x\<close> is the \<open>e\<close> with \<open>2 powi e \<le> x < 2 powi (e + 1)\<close>.
\<close>

datatype number = PyInt int | PyFloat rat

definition round_half_even :: "rat \<Rightarrow> int" where
  "round_half_even x =
     (let f = \<lfloor>x\<rfloor>; d = x - of_int f in
      if d < 1 / 2 then f else if 1 / 2 < d then f + 1 else if even f then f else f + 1)"

definition exponent :: "rat \<Rightarrow> int" where
  "exponent x =
     (let (p, q) = quotient_of x; e = bitlen p - bitlen q in
      if 2 powi e \<le> x then e else e - 1)"

definition round_double :: "rat \<Rightarrow> rat" where
  "round_double x =
     (if x = 0 then 0
      else (let ulp = 2 powi (exponent \<bar>x\<bar> - 52) in
            sgn x * of_int (round_half_even (\<bar>x\<bar> / ulp)) * ulp))"

text \<open>
  An integer becomes a float by \<^verbatim>\<open>float(n)\<close> and when it is an operand of a float
  division. The conversion raises \<^verbatim>\<open>OverflowError\<close> when the rounded value is beyond the
  largest double, that is \<open>2 ^ 1024\<close> or more in absolute value.
\<close>

definition py_float :: "int \<Rightarrow> py_error + rat" where
  "py_float n =
     (let x = round_double (of_int n) in
      if \<bar>x\<bar> < 2 ^ 1024 then Inr x else Inl OverflowError)"

text \<open>
  \<^verbatim>\<open>float(sum(items)) / len(items) if len(items) > 0 else 0\<close>. The divisor is at least 1
  and a Python list has fewer than \<open>2 ^ 63\<close> items, so the quotient is 0 or a normal
  double and \<open>round_double\<close> is its IEEE rounding.
\<close>

definition mean :: "int list \<Rightarrow> py_error + number" where
  "mean items =
     (if length items > 0 then
        (case py_float (sum_list items) of
           Inl e \<Rightarrow> Inl e
         | Inr s \<Rightarrow>
             (case py_float (int (length items)) of
                Inl e \<Rightarrow> Inl e
              | Inr n \<Rightarrow> Inr (PyFloat (round_double (s / n)))))
      else Inr (PyInt 0))"

text \<open>
  \<^verbatim>\<open>result[k][field].append(x)\<close>: the list under \<open>field\<close> of the bucket of key \<open>k\<close> grows by
  \<open>x\<close>; \<open>f\<close> is that change of one bucket.
\<close>

definition bucket_append ::
  "nat \<Rightarrow> (int list start_end \<Rightarrow> int list start_end) \<Rightarrow> (nat, int list start_end) dict
     \<Rightarrow> py_error + (nat, int list start_end) dict" where
  "bucket_append k f result =
     (case map_of result k of
        None \<Rightarrow> Inl KeyError
      | Some b \<Rightarrow> Inr (AList.update k (f b) result))"

fun mean_time_of_presence_loop ::
  "(date, presence) dict \<Rightarrow> date list \<Rightarrow> (nat, int list start_end) dict
     \<Rightarrow> py_error + (nat, int list start_end) dict" where
  "mean_time_of_presence_loop items [] result = Inr result"
| "mean_time_of_presence_loop items (d # rest) result =
     (case map_of items d of
        None \<Rightarrow> Inl KeyError
      | Some entry \<Rightarrow>
          (let st = start entry; en = end' entry in
           case bucket_append (weekday d)
                  (\<lambda>b. b\<lparr>start := start b @ [seconds_since_midnight st]\<rparr>) result of
             Inl e \<Rightarrow> Inl e
           | Inr result1 \<Rightarrow>
               (case bucket_append (weekday d)
                       (\<lambda>b. b\<lparr>end' := end' b @ [seconds_since_midnight en]\<rparr>) result1 of
                  Inl e \<Rightarrow> Inl e
                | Inr result2 \<Rightarrow> mean_time_of_presence_loop items rest result2)))"

text \<open>
  The second loop \<^verbatim>\<open>for day in result\<close> replaces, key by key, the list of starts and
  then the list of ends by its mean; an exception of \<^verbatim>\<open>mean\<close> ends the call.
\<close>

fun mean_time_of_presence_means ::
  "(nat, int list start_end) dict \<Rightarrow> py_error + (nat, number start_end) dict" where
  "mean_time_of_presence_means [] = Inr []"
| "mean_time_of_presence_means ((dy, b) # rest) =
     (case mean (start b) of
        Inl e \<Rightarrow> Inl e
      | Inr s \<Rightarrow>
          (case mean (end' b) of
             Inl e \<Rightarrow> Inl e
           | Inr en \<Rightarrow>
               (case mean_time_of_presence_means rest of
                  Inl e \<Rightarrow> Inl e
                | Inr means \<Rightarrow> Inr ((dy, \<lparr>start = s, end' = en\<rparr>) # means))))"

definition mean_time_of_presence ::
  "(date, presence) dict \<Rightarrow> py_error + (nat, number start_end) dict" where
  "mean_time_of_presence items =
     (case mean_time_of_presence_loop items (map fst items)
             (map (\<lambda>i. (i, \<lparr>start = [], end' = []\<rparr>)) [0..<7]) of
        Inl e \<Rightarrow> Inl e
      | Inr result \<Rightarrow> mean_time_of_presence_means result)"

text \<open>
  For use in statements: the double nearest to the arithmetic mean of a non-empty list,
  and the integer 0 for the empty list.
\<close>

definition nearest_mean :: "int list \<Rightarrow> number" where
  "nearest_mean xs =
     (if xs = [] then PyInt 0
      else PyFloat (round_double (of_int (sum_list xs) / of_nat (length xs))))"

section \<open>Attendance loader\<close>

text \<open>
  The loader calls three parsers of the standard library: \<^verbatim>\<open>int(row[0])\<close>,
  \<^verbatim>\<open>datetime.strptime(row[1], '%Y-%m-%d').date()\<close> and
  \<^verbatim>\<open>datetime.strptime(_, '%H:%M:%S').time()\<close>. They are parameters of the model; \<open>None\<close>
  stands for the \<^verbatim>\<open>ValueError\<close> they raise on a string they do not accept.
\<close>

record parsers =
  int_of :: "string \<Rightarrow> int option"
  date_of :: "string \<Rightarrow> date option"
  time_of :: "string \<Rightarrow> time_of_day option"

text \<open>
  The local variables of \<^verbatim>\<open>get_data\<close> that the loop body assigns. They live across
  iterations; \<open>None\<close> is a variable that has not been assigned yet.
\<close>

record locals =
  user_id :: "int option"
  date_var :: "date option"
  start_var :: "time_of_day option"
  end_var :: "time_of_day option"

definition unbound :: locals where
  "unbound = \<lparr>user_id = None, date_var = None, start_var = None, end_var = None\<rparr>"

type_synonym attendance = "(int, (date, presence) dict) dict"

text \<open>
  The \<^verbatim>\<open>try\<close> block: four assignments in sequence; the first parser that raises ends the
  block, and the assignments before it have happened. The flag tells whether the
  \<^verbatim>\<open>except\<close> clause ran.
\<close>

definition try_parse :: "parsers \<Rightarrow> string list \<Rightarrow> locals \<Rightarrow> locals \<times> bool" where
  "try_parse P row l =
     (case int_of P (row ! 0) of
        None \<Rightarrow> (l, True)
      | Some u \<Rightarrow>
          (let l1 = l\<lparr>user_id := Some u\<rparr> in
           case date_of P (row ! 1) of
             None \<Rightarrow> (l1, True)
           | Some d \<Rightarrow>
               (let l2 = l1\<lparr>date_var := Some d\<rparr> in
                case time_of P (row ! 2) of
                  None \<Rightarrow> (l2, True)
                | Some s \<Rightarrow>
                    (let l3 = l2\<lparr>start_var := Some s\<rparr> in
                     case time_of P (row ! 3) of
                       None \<Rightarrow> (l3, True)
                     | Some e \<Rightarrow> (l3\<lparr>end_var := Some e\<rparr>, False)))))"

text \<open>
  \<^verbatim>\<open>data.setdefault(user_id, {})[date] = {'start': start, 'end': end}\<close>. Reading a local
  variable that was never assigned raises \<^verbatim>\<open>UnboundLocalError\<close>.
\<close>

definition store :: "locals \<Rightarrow> attendance \<Rightarrow> py_error + attendance" where
  "store l data =
     (case (start_var l, end_var l, user_id l, date_var l) of
        (Some s, Some e, Some u, Some d) \<Rightarrow>
          (let inner = (case map_of data u of None \<Rightarrow> [] | Some m \<Rightarrow> m) in
           Inr (AList.update u (AList.update d \<lparr>start = s, end' = e\<rparr> inner) data))
      | _ \<Rightarrow> Inl UnboundLocalError)"

text \<open>
  The loop over \<^verbatim>\<open>enumerate(presence_reader)\<close>. The state is the local variables, the
  dictionary \<open>data\<close> and the row numbers passed to \<^verbatim>\<open>log.debug\<close>. The statement after the
  \<^verbatim>\<open>try\<close> runs whether or not the \<^verbatim>\<open>except\<close> clause ran.
\<close>

fun get_data_loop ::
  "parsers \<Rightarrow> (nat \<times> string list) list \<Rightarrow> locals \<Rightarrow> attendance \<Rightarrow> nat list
     \<Rightarrow> nat list \<times> (py_error + attendance)" where
  "get_data_loop P [] l data lg = (lg, Inr data)"
| "get_data_loop P ((i, row) # rest) l data lg =
     (if length row \<noteq> 4 then get_data_loop P rest l data lg
      else
        (let (l1, raised) = try_parse P row l;
             lg1 = (if raised then lg @ [i] else lg) in
         case store l1 data of
           Inl e \<Rightarrow> (lg1, Inl e)
         | Inr data1 \<Rightarrow> get_data_loop P rest l1 data1 lg1))"

text \<open>
  The file is what \<^verbatim>\<open>csv.reader\<close> yields, a list of rows of fields, or \<open>None\<close> when
  \<^verbatim>\<open>open\<close> fails. The result is the debug log and what the call returns or raises.
\<close>

definition get_data ::
  "parsers \<Rightarrow> string list list option \<Rightarrow> nat list \<times> (py_error + attendance)" where
  "get_data P csvfile =
     (case csvfile of
        None \<Rightarrow> ([], Inl IOError)
      | Some presence_reader \<Rightarrow>
          get_data_loop P (List.enumerate 0 presence_reader) unbound [] [])"

subsection \<open>Parsers for concrete files\<close>

text \<open>
  To run the loaders on a concrete file the parsers have to be concrete.
  \<open>plain_parsers\<close> accepts the zero-padded spellings \<^verbatim>\<open>YYYY-MM-DD\<close> and \<^verbatim>\<open>HH:MM:SS\<close> and
  decimal digits with an optional sign, and agrees with Python on every string it
  accepts and on the strings of the examples below.
\<close>

definition digit_value :: "char \<Rightarrow> nat option" where
  "digit_value c =
     (let n = (of_char c :: nat) in if 48 \<le> n \<and> n \<le> 57 then Some (n - 48) else None)"

fun digits_value :: "nat \<Rightarrow> string \<Rightarrow> nat option" where
  "digits_value acc [] = Some acc"
| "digits_value acc (c # cs) =
     (case digit_value c of None \<Rightarrow> None | Some v \<Rightarrow> digits_value (acc * 10 + v) cs)"

definition decimal :: "string \<Rightarrow> int option" where
  "decimal s = (if s = [] then None else map_option int (digits_value 0 s))"

definition plain_int :: "string \<Rightarrow> int option" where
  "plain_int s =
     (case s of
        [] \<Rightarrow> None
      | c # cs \<Rightarrow>
          if c = CHR ''-'' then map_option uminus (decimal cs)
          else if c = CHR ''+'' then decimal cs
          else decimal s)"

definition DAYS_IN_MONTH :: "int list" where
  "DAYS_IN_MONTH = [-1, 31, 28, 31, 30, 31, 30, 31, 31, 30, 31, 30, 31]"

definition days_in_month :: "int \<Rightarrow> int \<Rightarrow> int" where
  "days_in_month yr m = (if m = 2 \<and> is_leap yr then 29 else DAYS_IN_MONTH ! nat m)"

definition plain_date :: "string \<Rightarrow> date option" where
  "plain_date s =
     (if length s = 10 \<and> s ! 4 = CHR ''-'' \<and> s ! 7 = CHR ''-'' then
        (case (decimal (take 4 s), decimal (take 2 (drop 5 s)), decimal (drop 8 s)) of
           (Some y, Some m, Some d) \<Rightarrow>
             if 1 \<le> y \<and> 1 \<le> m \<and> m \<le> 12 \<and> 1 \<le> d \<and> d \<le> days_in_month y m
             then Some \<lparr>year = y, month = m, day = d\<rparr> else None
         | _ \<Rightarrow> None)
      else None)"

definition plain_time :: "string \<Rightarrow> time_of_day option" where
  "plain_time s =
     (if length s = 8 \<and> s ! 2 = CHR '':'' \<and> s ! 5 = CHR '':'' then
        (case (decimal (take 2 s), decimal (take 2 (drop 3 s)), decimal (drop 6 s)) of
           (Some h, Some m, Some sec) \<Rightarrow>
             if h < 24 \<and> m < 60 \<and> sec < 60
             then Some \<lparr>hour = h, minute = m, second = sec\<rparr> else None
         | _ \<Rightarrow> None)
      else None)"

definition plain_parsers :: parsers where
  "plain_parsers = \<lparr>int_of = plain_int, date_of = plain_date, time_of = plain_time\<rparr>"

section \<open>Directory loader\<close>

text \<open>
  An element of the parsed document: its tag, its attributes, its text (\<open>None\<close> when it
  has none) and its child elements. \<^verbatim>\<open>el.find(t)\<close> is the first child with tag \<open>t\<close>, or
  \<^verbatim>\<open>None\<close>; iterating an element yields its children.
\<close>

datatype element =
  Element (tag: string) (attrib: "(string, string) dict") (text': "string option")
    (children: "element list")

definition find_el :: "string \<Rightarrow> element \<Rightarrow> element option" where
  "find_el t el = List.find (\<lambda>c. tag c = t) (children el)"

text \<open>\<^verbatim>\<open>x.find(t).text\<close>, where \<open>x\<close> may be \<^verbatim>\<open>None\<close>: an attribute of \<^verbatim>\<open>None\<close> raises.\<close>

definition find_text :: "string \<Rightarrow> element option \<Rightarrow> py_error + string option" where
  "find_text t x =
     (case x of
        None \<Rightarrow> Inl AttributeError
      | Some el \<Rightarrow>
          (case find_el t el of None \<Rightarrow> Inl AttributeError | Some c \<Rightarrow> Inr (text' c)))"

text \<open>How \<^verbatim>\<open>str.format\<close> prints a text: \<^verbatim>\<open>None\<close> prints as the word.\<close>

definition format_text :: "string option \<Rightarrow> string" where
  "format_text x = (case x of None \<Rightarrow> ''None'' | Some s \<Rightarrow> s)"

record directory_entry =
  avatar :: string
  name :: "string option"

type_synonym directory = "(int, directory_entry) dict"

text \<open>
  One assignment \<^verbatim>\<open>result[int(user.attrib['id'])] = {...}\<close>: Python evaluates the right
  side first (the arguments of \<^verbatim>\<open>format\<close> in order, then the name), then the key.
\<close>

definition user_entry ::
  "parsers \<Rightarrow> element option \<Rightarrow> element \<Rightarrow> py_error + (int \<times> directory_entry)" where
  "user_entry P server user =
     (case find_text ''protocol'' server of Inl e \<Rightarrow> Inl e | Inr protocol \<Rightarrow>
     (case find_text ''host'' server of Inl e \<Rightarrow> Inl e | Inr serv \<Rightarrow>
     (case find_text ''port'' server of Inl e \<Rightarrow> Inl e | Inr port \<Rightarrow>
     (case find_text ''avatar'' (Some user) of Inl e \<Rightarrow> Inl e | Inr url \<Rightarrow>
     (case find_text ''name'' (Some user) of Inl e \<Rightarrow> Inl e | Inr nm \<Rightarrow>
     (case map_of (attrib user) ''id'' of None \<Rightarrow> Inl KeyError | Some s \<Rightarrow>
     (case int_of P s of None \<Rightarrow> Inl ValueError | Some uid \<Rightarrow>
        Inr (uid,
             \<lparr>avatar = format_text protocol @ ''://'' @ format_text serv @ '':'' @
                        format_text port @ format_text url,
              name = nm\<rparr>))))))))"

fun get_data_xml_loop ::
  "parsers \<Rightarrow> element option \<Rightarrow> element list \<Rightarrow> directory \<Rightarrow> py_error + directory" where
  "get_data_xml_loop P server [] result = Inr result"
| "get_data_xml_loop P server (user # rest) result =
     (case user_entry P server user of
        Inl e \<Rightarrow> Inl e
      | Inr (uid, entry) \<Rightarrow> get_data_xml_loop P server rest (AList.update uid entry result))"

text \<open>
  The argument is what \<^verbatim>\<open>etree.parse(...).getroot()\<close> gives: the root element, or the
  error of a missing or malformed file. Iterating \<^verbatim>\<open>None\<close> raises \<^verbatim>\<open>TypeError\<close>.
\<close>

definition get_data_xml :: "parsers \<Rightarrow> py_error + element \<Rightarrow> py_error + directory" where
  "get_data_xml P tree =
     (case tree of
        Inl e \<Rightarrow> Inl e
      | Inr doc \<Rightarrow>
          (let server = find_el ''server'' doc; users = find_el ''users'' doc in
           case users of
             None \<Rightarrow> Inl TypeError
           | Some us \<Rightarrow> get_data_xml_loop P server (children us) []))"

subsection \<open>Well-formed directory documents\<close>

text \<open>
  What the loader expects of a document, for use in statements: the text of the first
  child with a given tag, the integer under the attribute \<^verbatim>\<open>id\<close>, and a user element
  that has an integer id, a name text and an avatar text.
\<close>

definition child_text :: "string \<Rightarrow> element \<Rightarrow> string option" where
  "child_text t el = (case find_el t el of None \<Rightarrow> None | Some c \<Rightarrow> text' c)"

definition user_id_of :: "parsers \<Rightarrow> element \<Rightarrow> int option" where
  "user_id_of P user =
     (case map_of (attrib user) ''id'' of None \<Rightarrow> None | Some s \<Rightarrow> int_of P s)"

definition well_formed_user :: "parsers \<Rightarrow> element \<Rightarrow> bool" where
  "well_formed_user P user =
     (user_id_of P user \<noteq> None \<and> child_text ''name'' user \<noteq> None
      \<and> child_text ''avatar'' user \<noteq> None)"

section \<open>Cache layer\<close>

text \<open>
  \<^verbatim>\<open>CACHE\<close> maps a key to \<^verbatim>\<open>{'time': ..., 'value': ...}\<close>. Clock readings and expiry
  times are rational numbers of seconds. A wrapped function has its \<^verbatim>\<open>__name__\<close> and its
  body; the body's argument stands for \<^verbatim>\<open>*args, **kwargs\<close> and whatever else the body
  reads (the loaders read a file). The world is the module's \<^verbatim>\<open>CACHE\<close> together with
  the record of which wrapped functions have been invoked, in order.
\<close>

record 'v cache_entry =
  time :: rat
  value' :: 'v

record ('a, 'v) pyfun =
  func_name :: string
  call :: "'a \<Rightarrow> py_error + 'v"

record 'v world =
  CACHE :: "string \<rightharpoonup> 'v cache_entry"
  calls :: "string list"

text \<open>
  \<^verbatim>\<open>memoize(duration)(function)(*args, **kwargs)\<close>, called when the clock reads \<open>now\<close>.
  An exception of the wrapped function leaves the \<^verbatim>\<open>with\<close> block before the assignment
  to \<^verbatim>\<open>CACHE[key]\<close>.
\<close>

definition memoize ::
  "int \<Rightarrow> ('a, 'v) pyfun \<Rightarrow> rat \<Rightarrow> 'a \<Rightarrow> 'v world \<Rightarrow> (py_error + 'v) \<times> 'v world" where
  "memoize duration function now args w =
     (let key = func_name function;
          invoke =
            (case call function args of
               Inl e \<Rightarrow> (Inl e, w\<lparr>calls := calls w @ [key]\<rparr>)
             | Inr result \<Rightarrow>
                 (Inr result,
                  w\<lparr>CACHE := (CACHE w)(key \<mapsto> \<lparr>time = now + of_int duration, value' = result\<rparr>),
                    calls := calls w @ [key]\<rparr>))
      in case CACHE w key of
           None \<Rightarrow> invoke
         | Some entry \<Rightarrow> if time entry > now then (Inr (value' entry), w) else invoke)"

text \<open>The test \<^verbatim>\<open>key in CACHE and CACHE[key]['time'] > now\<close>, for use in statements.\<close>

definition unexpired :: "'v world \<Rightarrow> string \<Rightarrow> rat \<Rightarrow> bool" where
  "unexpired w key now = (case CACHE w key of None \<Rightarrow> False | Some entry \<Rightarrow> time entry > now)"

text \<open>
  The decorated loader \<^verbatim>\<open>@memoize(600) def get_data()\<close>: the wrapped function is named
  \<^verbatim>\<open>get_data\<close>, and what its body reads is the file.
\<close>

definition get_data_function ::
  "parsers \<Rightarrow> (string list list option, attendance) pyfun" where
  "get_data_function P =
     \<lparr>func_name = ''get_data'', call = (\<lambda>csvfile. snd (get_data P csvfile))\<rparr>"

section \<open>Properties of the interval math\<close>

lemma weekday_less_7: "weekday d < 7"
  by (simp add: weekday_def nat_less_iff)

lemma time_less_seconds:
  assumes "valid_time a" "valid_time b" "time_less a b"
  shows "seconds_since_midnight a < seconds_since_midnight b"
  using assms unfolding valid_time_def time_less_def seconds_since_midnight_def
  by auto

text \<open>
  Claim C7. For all times of day \<open>st\<close> and \<open>en\<close>, \<^verbatim>\<open>interval(st, en)\<close> is
  \<^verbatim>\<open>seconds_since_midnight(en) - seconds_since_midnight(st)\<close>, where the seconds since
  midnight of \<open>t\<close> are \<open>hour * 3600 + minute * 60 + second\<close>. The difference is returned
  as it is, an integer that is never clamped and never an error: for valid times it is
  negative whenever the end precedes the start.
\<close>

theorem interval_is_signed_difference:
  "seconds_since_midnight t = hour t * 3600 + minute t * 60 + second t
   \<and> interval st en = seconds_since_midnight en - seconds_since_midnight st
   \<and> (valid_time st \<and> valid_time en \<and> time_less en st \<longrightarrow> interval st en < 0)"
  using time_less_seconds [of en st]
  by (simp add: interval_def seconds_since_midnight_def)

theorem interval_is_signed_difference_witness:
  "valid_time \<lparr>hour = 17, minute = 0, second = 0\<rparr>
   \<and> valid_time \<lparr>hour = 9, minute = 0, second = 0\<rparr>
   \<and> time_less \<lparr>hour = 9, minute = 0, second = 0\<rparr> \<lparr>hour = 17, minute = 0, second = 0\<rparr>
   \<and> interval \<lparr>hour = 17, minute = 0, second = 0\<rparr> \<lparr>hour = 9, minute = 0, second = 0\<rparr> = - 28800
   \<and> interval \<lparr>hour = 17, minute = 0, second = 0\<rparr> \<lparr>hour = 9, minute = 0, second = 0\<rparr> < 0"
  using interval_is_signed_difference
    [of "\<lparr>hour = 9, minute = 0, second = 0\<rparr>" "\<lparr>hour = 17, minute = 0, second = 0\<rparr>"
        "\<lparr>hour = 9, minute = 0, second = 0\<rparr>"]
  by (simp add: valid_time_def time_less_def seconds_since_midnight_def)

section \<open>Properties of \<^verbatim>\<open>group_by_weekday\<close>\<close>

lemma group_by_weekday_loop_Inr:
  assumes "\<forall>d\<in>set ds. map_of items d = Some (f d)" "length result = 7"
  shows "group_by_weekday_loop items ds result =
           Inr (map (\<lambda>w. result ! w @
                  map (\<lambda>d. interval (start (f d)) (end' (f d))) (filter (\<lambda>d. weekday d = w) ds))
                [0..<7])"
  using assms
proof (induction ds arbitrary: result)
  case Nil
  then show ?case by (simp add: list_eq_iff_nth_eq)
next
  case (Cons d rest)
  let ?iv = "interval (start (f d)) (end' (f d))"
  let ?r = "result[weekday d := result ! weekday d @ [?iv]]"
  let ?b = "\<lambda>ds w. map (\<lambda>d. interval (start (f d)) (end' (f d))) (filter (\<lambda>d. weekday d = w) ds)"
  have e: "map_of items d = Some (f d)" using Cons.prems by simp
  have wd: "weekday d < length result" using Cons.prems weekday_less_7 by simp
  have "group_by_weekday_loop items (d # rest) result = group_by_weekday_loop items rest ?r"
    using e wd by (simp add: Let_def)
  also have "\<dots> = Inr (map (\<lambda>w. ?r ! w @ ?b rest w) [0..<7])"
    using Cons.prems by (intro Cons.IH) auto
  also have "map (\<lambda>w. ?r ! w @ ?b rest w) [0..<7] = map (\<lambda>w. result ! w @ ?b (d # rest) w) [0..<7]"
    using wd Cons.prems(2) by (auto simp: nth_list_update)
  finally show ?case .
qed

lemma dict_lookup:
  assumes "distinct (map fst items)" "(d, r) \<in> set items"
  shows "map_of items d = Some r"
  using assms by simp

lemma keys_filter_map:
  assumes "distinct (map fst items)"
  shows "map (\<lambda>d. g (the (map_of items d))) (filter p (map fst items)) =
         map (\<lambda>(d, r). g r) (filter (\<lambda>(d, r). p d) items)"
proof -
  have "\<And>x. x \<in> set items \<Longrightarrow> map_of items (fst x) = Some (snd x)"
    using assms by simp
  then show ?thesis
    unfolding filter_map comp_def map_map
    by (intro map_cong) (auto simp: case_prod_beta intro!: filter_cong)
qed

lemma group_by_weekday_Inr:
  assumes "distinct (map fst items)"
  shows "group_by_weekday items =
           Inr (map (\<lambda>w. map (\<lambda>(d, r). interval (start r) (end' r))
                           (filter (\<lambda>(d, r). weekday d = w) items)) [0..<7])"
proof -
  have "\<forall>d\<in>set (map fst items). map_of items d = Some (the (map_of items d))"
    by (auto dest: weak_map_of_SomeI)
  then have "group_by_weekday items =
      Inr (map (\<lambda>w. [[], [], [], [], [], [], []] ! w @
             map (\<lambda>d. interval (start (the (map_of items d))) (end' (the (map_of items d))))
               (filter (\<lambda>d. weekday d = w) (map fst items))) [0..<7])"
    unfolding group_by_weekday_def by (rule group_by_weekday_loop_Inr) simp
  also have "\<dots> = Inr (map (\<lambda>w. map (\<lambda>(d, r). interval (start r) (end' r))
                           (filter (\<lambda>(d, r). weekday d = w) items)) [0..<7])"
    using keys_filter_map [OF assms, of "\<lambda>r. interval (start r) (end' r)"]
    by (simp add: nth_Cons' )
  finally show ?thesis .
qed


lemma bucket_lengths:
  assumes "\<forall>x\<in>set xs. h x < n"
  shows "sum_list (map (\<lambda>w. length (filter (\<lambda>x. h x = w) xs)) [0..<n]) = length xs"
  using assms
proof (induction xs)
  case Nil
  then show ?case by simp
next
  case (Cons x xs)
  have one: "(\<Sum>w = 0..<n. if h x = w then 1 else 0) = (1::nat)"
    using Cons.prems by simp
  have "sum_list (map (\<lambda>w. length (filter (\<lambda>y. h y = w) (x # xs))) [0..<n]) =
        (\<Sum>w = 0..<n. (if h x = w then 1 else 0) + length (filter (\<lambda>y. h y = w) xs))"
    by (simp add: interv_sum_list_conv_sum_set_nat) (rule sum.cong, auto)
  also have "\<dots> = 1 + (\<Sum>w = 0..<n. length (filter (\<lambda>y. h y = w) xs))"
    by (simp add: sum.distrib one)
  also have "(\<Sum>w = 0..<n. length (filter (\<lambda>y. h y = w) xs)) = length xs"
    using Cons by (simp add: interv_sum_list_conv_sum_set_nat)
  finally show ?case by simp
qed

lemma weekday_examples:
  "weekday \<lparr>year = 2023, month = 1, day = 2\<rparr> = 0"
  "weekday \<lparr>year = 2023, month = 1, day = 3\<rparr> = 1"
  "weekday \<lparr>year = 2023, month = 1, day = 9\<rparr> = 0"
  by code_simp+

text \<open>
  Claim C5. \<^verbatim>\<open>group_by_weekday\<close> returns seven lists, index 0 for Monday to index 6 for
  Sunday. The list of weekday \<open>w\<close> holds \<^verbatim>\<open>interval(start, end)\<close> of the entries whose date
  falls on \<open>w\<close>, in the order in which the dictionary yields them. For the records of
  2023-01-02 (09:00:00 to 17:00:00) and 2023-01-09 (09:00:00 to 17:30:00), both Mondays,
  index 0 is \<open>[28800, 30600]\<close> and every other list is empty.
\<close>

theorem group_by_weekday_appends_in_order:
  "(distinct (map fst items) \<longrightarrow>
      (\<exists>result. group_by_weekday items = Inr result \<and> length result = 7 \<and>
         (\<forall>w<7. result ! w =
            map (\<lambda>(d, r). interval (start r) (end' r))
              (filter (\<lambda>(d, r). weekday d = w) items))))
   \<and> group_by_weekday
        [(\<lparr>year = 2023, month = 1, day = 2\<rparr>,
          \<lparr>start = \<lparr>hour = 9, minute = 0, second = 0\<rparr>,
           end' = \<lparr>hour = 17, minute = 0, second = 0\<rparr>\<rparr>),
         (\<lparr>year = 2023, month = 1, day = 9\<rparr>,
          \<lparr>start = \<lparr>hour = 9, minute = 0, second = 0\<rparr>,
           end' = \<lparr>hour = 17, minute = 30, second = 0\<rparr>\<rparr>)]
      = Inr [[28800, 30600], [], [], [], [], [], []]"
proof (intro conjI impI)
  assume "distinct (map fst items)"
  then show "\<exists>result. group_by_weekday items = Inr result \<and> length result = 7 \<and>
         (\<forall>w<7. result ! w =
            map (\<lambda>(d, r). interval (start r) (end' r))
              (filter (\<lambda>(d, r). weekday d = w) items))"
    by (simp add: group_by_weekday_Inr)
next
  show "group_by_weekday
        [(\<lparr>year = 2023, month = 1, day = 2\<rparr>,
          \<lparr>start = \<lparr>hour = 9, minute = 0, second = 0\<rparr>,
           end' = \<lparr>hour = 17, minute = 0, second = 0\<rparr>\<rparr>),
         (\<lparr>year = 2023, month = 1, day = 9\<rparr>,
          \<lparr>start = \<lparr>hour = 9, minute = 0, second = 0\<rparr>,
           end' = \<lparr>hour = 17, minute = 30, second = 0\<rparr>\<rparr>)]
      = Inr [[28800, 30600], [], [], [], [], [], []]"
    by code_simp
qed

theorem group_by_weekday_appends_in_order_witness:
  "distinct (map fst
      [(\<lparr>year = 2023, month = 1, day = 2\<rparr>,
        \<lparr>start = \<lparr>hour = 9, minute = 0, second = 0\<rparr>,
         end' = \<lparr>hour = 17, minute = 0, second = 0\<rparr>\<rparr>),
       (\<lparr>year = 2023, month = 1, day = 3\<rparr>,
        \<lparr>start = \<lparr>hour = 8, minute = 30, second = 0\<rparr>,
         end' = \<lparr>hour = 16, minute = 45, second = 0\<rparr>\<rparr>),
       (\<lparr>year = 2023, month = 1, day = 9\<rparr>,
        \<lparr>start = \<lparr>hour = 9, minute = 0, second = 0\<rparr>,
         end' = \<lparr>hour = 17, minute = 30, second = 0\<rparr>\<rparr>)])
   \<and> (\<exists>result. group_by_weekday
      [(\<lparr>year = 2023, month = 1, day = 2\<rparr>,
        \<lparr>start = \<lparr>hour = 9, minute = 0, second = 0\<rparr>,
         end' = \<lparr>hour = 17, minute = 0, second = 0\<rparr>\<rparr>),
       (\<lparr>year = 2023, month = 1, day = 3\<rparr>,
        \<lparr>start = \<lparr>hour = 8, minute = 30, second = 0\<rparr>,
         end' = \<lparr>hour = 16, minute = 45, second = 0\<rparr>\<rparr>),
       (\<lparr>year = 2023, month = 1, day = 9\<rparr>,
        \<lparr>start = \<lparr>hour = 9, minute = 0, second = 0\<rparr>,
         end' = \<lparr>hour = 17, minute = 30, second = 0\<rparr>\<rparr>)] = Inr result
      \<and> length result = 7 \<and> result ! 0 = [28800, 30600] \<and> result ! 1 = [29700]
      \<and> result ! 2 = [])"
  using group_by_weekday_appends_in_order
    [of "[(\<lparr>year = 2023, month = 1, day = 2\<rparr>,
        \<lparr>start = \<lparr>hour = 9, minute = 0, second = 0\<rparr>,
         end' = \<lparr>hour = 17, minute = 0, second = 0\<rparr>\<rparr>),
       (\<lparr>year = 2023, month = 1, day = 3\<rparr>,
        \<lparr>start = \<lparr>hour = 8, minute = 30, second = 0\<rparr>,
         end' = \<lparr>hour = 16, minute = 45, second = 0\<rparr>\<rparr>),
       (\<lparr>year = 2023, month = 1, day = 9\<rparr>,
        \<lparr>start = \<lparr>hour = 9, minute = 0, second = 0\<rparr>,
         end' = \<lparr>hour = 17, minute = 30, second = 0\<rparr>\<rparr>)]"]
  by (auto simp: weekday_examples interval_def seconds_since_midnight_def)

text \<open>
  Claim C10. \<^verbatim>\<open>group_by_weekday\<close> loses and duplicates nothing: the seven lists together
  have as many intervals as the dictionary has entries, and the list of weekday \<open>w\<close>
  holds, as a multiset, exactly one interval for each entry whose date falls on \<open>w\<close>.
\<close>

theorem group_by_weekday_no_loss_no_duplication:
  assumes "distinct (map fst items)"
  shows "\<exists>result. group_by_weekday items = Inr result \<and> length result = 7
           \<and> sum_list (map length result) = length items
           \<and> (\<forall>w<7. mset (result ! w) =
                 image_mset (\<lambda>(d, r). interval (start r) (end' r))
                   (filter_mset (\<lambda>(d, r). weekday d = w) (mset items)))"
proof -
  let ?res = "map (\<lambda>w. map (\<lambda>(d, r). interval (start r) (end' r))
                           (filter (\<lambda>(d, r). weekday d = w) items)) [0..<7]"
  have "sum_list (map length ?res) =
        sum_list (map (\<lambda>w. length (filter (\<lambda>x. weekday (fst x) = w) items)) [0..<7])"
    by (simp add: comp_def case_prod_unfold)
  also have "\<dots> = length items"
    by (rule bucket_lengths) (simp add: weekday_less_7)
  finally have total: "sum_list (map length ?res) = length items" .
  have "\<forall>w<7. mset (?res ! w) =
                 image_mset (\<lambda>(d, r). interval (start r) (end' r))
                   (filter_mset (\<lambda>(d, r). weekday d = w) (mset items))"
    by simp
  with total group_by_weekday_Inr [OF assms] show ?thesis
    by (intro exI [of _ ?res]) simp
qed

theorem group_by_weekday_no_loss_no_duplication_witness:
  "distinct (map fst
      [(\<lparr>year = 2023, month = 1, day = 2\<rparr>,
        \<lparr>start = \<lparr>hour = 9, minute = 0, second = 0\<rparr>,
         end' = \<lparr>hour = 17, minute = 0, second = 0\<rparr>\<rparr>),
       (\<lparr>year = 2023, month = 1, day = 3\<rparr>,
        \<lparr>start = \<lparr>hour = 8, minute = 30, second = 0\<rparr>,
         end' = \<lparr>hour = 16, minute = 45, second = 0\<rparr>\<rparr>),
       (\<lparr>year = 2023, month = 1, day = 9\<rparr>,
        \<lparr>start = \<lparr>hour = 9, minute = 0, second = 0\<rparr>,
         end' = \<lparr>hour = 17, minute = 30, second = 0\<rparr>\<rparr>)])
   \<and> (\<exists>result. group_by_weekday
      [(\<lparr>year = 2023, month = 1, day = 2\<rparr>,
        \<lparr>start = \<lparr>hour = 9, minute = 0, second = 0\<rparr>,
         end' = \<lparr>hour = 17, minute = 0, second = 0\<rparr>\<rparr>),
       (\<lparr>year = 2023, month = 1, day = 3\<rparr>,
        \<lparr>start = \<lparr>hour = 8, minute = 30, second = 0\<rparr>,
         end' = \<lparr>hour = 16, minute = 45, second = 0\<rparr>\<rparr>),
       (\<lparr>year = 2023, month = 1, day = 9\<rparr>,
        \<lparr>start = \<lparr>hour = 9, minute = 0, second = 0\<rparr>,
         end' = \<lparr>hour = 17, minute = 30, second = 0\<rparr>\<rparr>)] = Inr result
      \<and> length result = 7 \<and> sum_list (map length result) = 3
      \<and> mset (result ! 0) = {#28800, 30600#} \<and> mset (result ! 1) = {#29700#}
      \<and> mset (result ! 5) = {#})"
proof -
  let ?ex = "[(\<lparr>year = 2023, month = 1, day = 2\<rparr>,
        \<lparr>start = \<lparr>hour = 9, minute = 0, second = 0\<rparr>,
         end' = \<lparr>hour = 17, minute = 0, second = 0\<rparr>\<rparr>),
       (\<lparr>year = 2023, month = 1, day = 3\<rparr>,
        \<lparr>start = \<lparr>hour = 8, minute = 30, second = 0\<rparr>,
         end' = \<lparr>hour = 16, minute = 45, second = 0\<rparr>\<rparr>),
       (\<lparr>year = 2023, month = 1, day = 9\<rparr>,
        \<lparr>start = \<lparr>hour = 9, minute = 0, second = 0\<rparr>,
         end' = \<lparr>hour = 17, minute = 30, second = 0\<rparr>\<rparr>)]"
  have d: "distinct (map fst ?ex)"
    by simp
  from group_by_weekday_no_loss_no_duplication [OF d]
  obtain result where r: "group_by_weekday ?ex = Inr result" "length result = 7"
      "sum_list (map length result) = length ?ex"
    and b: "\<And>w. w < 7 \<Longrightarrow> mset (result ! w) =
                 image_mset (\<lambda>(d, r). interval (start r) (end' r))
                   (filter_mset (\<lambda>(d, r). weekday d = w) (mset ?ex))"
    by blast
  have "mset (result ! 0) = {#28800, 30600#}"
    using b [of 0] by (simp add: weekday_examples interval_def seconds_since_midnight_def)
  moreover have "mset (result ! 1) = {#29700#}"
    using b [of 1] by (simp add: weekday_examples interval_def seconds_since_midnight_def)
  moreover have "mset (result ! 5) = {#}"
    using b [of 5] by (simp add: weekday_examples)
  ultimately show ?thesis
    using d r by simp
qed

section \<open>Properties of \<^verbatim>\<open>mean_time_of_presence\<close>\<close>

lemma upt_0_7: "[0..<7] = [0, 1, 2, 3, 4, 5, 6]"
  by (simp add: upt_rec)

lemma map_of_keyed:
  "k \<in> set ks \<Longrightarrow> map_of (map (\<lambda>i. (i, B i)) ks) k = Some (B k)"
  by (induction ks) auto

lemma update_keyed:
  "k \<in> set ks \<Longrightarrow> distinct ks \<Longrightarrow>
     AList.update k v (map (\<lambda>i. (i, B i)) ks) = map (\<lambda>i. (i, (B(k := v)) i)) ks"
  by (induction ks) auto

lemma bucket_append_keyed:
  assumes "k < 7"
  shows "bucket_append k f (map (\<lambda>i. (i, B i)) [0..<7]) =
           Inr (map (\<lambda>i. (i, (B(k := f (B k))) i)) [0..<7])"
  using assms by (simp add: bucket_append_def map_of_keyed update_keyed)

lemma mean_time_of_presence_loop_Inr:
  assumes "\<forall>d\<in>set ds. map_of items d = Some (f d)"
  shows "mean_time_of_presence_loop items ds (map (\<lambda>i. (i, B i)) [0..<7]) =
           Inr (map (\<lambda>i. (i,
                  \<lparr>start = start (B i) @
                     map (\<lambda>d. seconds_since_midnight (start (f d)))
                       (filter (\<lambda>d. weekday d = i) ds),
                   end' = end' (B i) @
                     map (\<lambda>d. seconds_since_midnight (end' (f d)))
                       (filter (\<lambda>d. weekday d = i) ds)\<rparr>)) [0..<7])"
  using assms
proof (induction ds arbitrary: B)
  case Nil
  then show ?case by simp
next
  case (Cons d rest)
  let ?k = "weekday d"
  let ?s = "seconds_since_midnight (start (f d))"
  let ?e = "seconds_since_midnight (end' (f d))"
  let ?B1 = "B(?k := (B ?k)\<lparr>start := start (B ?k) @ [?s]\<rparr>)"
  let ?B2 = "?B1(?k := (?B1 ?k)\<lparr>end' := end' (?B1 ?k) @ [?e]\<rparr>)"
  have e: "map_of items d = Some (f d)" using Cons.prems by simp
  have "mean_time_of_presence_loop items (d # rest) (map (\<lambda>i. (i, B i)) [0..<7]) =
        mean_time_of_presence_loop items rest (map (\<lambda>i. (i, ?B2 i)) [0..<7])"
    using e by (simp only: mean_time_of_presence_loop.simps option.case Let_def
                  bucket_append_keyed [OF weekday_less_7] sum.case)
  also have "\<dots> = Inr (map (\<lambda>i. (i,
                  \<lparr>start = start (?B2 i) @
                     map (\<lambda>d. seconds_since_midnight (start (f d)))
                       (filter (\<lambda>d. weekday d = i) rest),
                   end' = end' (?B2 i) @
                     map (\<lambda>d. seconds_since_midnight (end' (f d)))
                       (filter (\<lambda>d. weekday d = i) rest)\<rparr>)) [0..<7])"
    using Cons.prems by (intro Cons.IH) simp
  also have "\<dots> = Inr (map (\<lambda>i. (i,
                  \<lparr>start = start (B i) @
                     map (\<lambda>d. seconds_since_midnight (start (f d)))
                       (filter (\<lambda>d. weekday d = i) (d # rest)),
                   end' = end' (B i) @
                     map (\<lambda>d. seconds_since_midnight (end' (f d)))
                       (filter (\<lambda>d. weekday d = i) (d # rest))\<rparr>)) [0..<7])"
    by simp
  finally show ?case .
qed

lemma mean_time_of_presence_buckets:
  assumes "distinct (map fst items)"
  shows "mean_time_of_presence items =
           mean_time_of_presence_means
             (map (\<lambda>w. (w,
                  \<lparr>start = map (\<lambda>(d, r). seconds_since_midnight (start r))
                             (filter (\<lambda>(d, r). weekday d = w) items),
                   end' = map (\<lambda>(d, r). seconds_since_midnight (end' r))
                             (filter (\<lambda>(d, r). weekday d = w) items)\<rparr>)) [0..<7])"
proof -
  let ?f = "\<lambda>d. the (map_of items d)"
  have "\<forall>d\<in>set (map fst items). map_of items d = Some (?f d)"
    by (auto dest: weak_map_of_SomeI)
  from mean_time_of_presence_loop_Inr [OF this, of "\<lambda>i. \<lparr>start = [], end' = []\<rparr>"]
  show ?thesis
    unfolding mean_time_of_presence_def
    by (simp add: comp_def
          keys_filter_map [OF assms, of "\<lambda>r. seconds_since_midnight (start r)"]
          keys_filter_map [OF assms, of "\<lambda>r. seconds_since_midnight (end' r)"])
qed

subsection \<open>Rounding is exact on integers below \<open>2 ^ 53\<close>\<close>

lemma round_half_even_of_int: "round_half_even (of_int k) = k"
  by (simp add: round_half_even_def)

lemma exponent_of_int:
  assumes "0 < k"
  shows "exponent (of_int k) = bitlen k - 1"
proof -
  have "(2::int) ^ nat (bitlen k - 1) \<le> k"
    using bitlen_bounds [OF assms] by simp
  then have "(of_int ((2::int) ^ nat (bitlen k - 1)) :: rat) \<le> of_int k"
    by (simp only: of_int_le_iff)
  moreover have "0 \<le> bitlen k - 1"
    using assms bitlen_eq_zero_iff [of k] bitlen_nonneg [of k] by simp
  ultimately have "(2::rat) powi (bitlen k - 1) \<le> of_int k"
    by (simp add: power_int_def)
  moreover have "bitlen 1 = 1"
    by (simp add: bitlen_alt_def)
  ultimately show ?thesis
    by (simp add: exponent_def Let_def)
qed

lemma round_double_of_int:
  assumes "\<bar>k\<bar> < 2 ^ 53"
  shows "round_double (of_int k) = of_int k"
proof (cases "k = 0")
  case True
  then show ?thesis by (simp add: round_double_def)
next
  case False
  let ?a = "\<bar>k\<bar>"
  have pos: "0 < ?a" using False by simp
  have "bitlen ?a \<le> 53"
    using assms by (simp add: bitlen_le_iff_power)
  then have e: "exponent (of_int ?a) - 52 \<le> 0"
    by (simp add: exponent_of_int [OF pos] del: of_int_abs)
  define n where "n = nat (52 - exponent (of_int ?a))"
  have ulp: "(2::rat) powi (exponent (of_int ?a) - 52) = 1 / 2 ^ n"
    using e by (simp add: power_int_def n_def inverse_eq_divide power_one_over)
  have "(of_int ?a :: rat) / (1 / 2 ^ n) = of_int (?a * 2 ^ n)"
    by simp
  then have r: "round_half_even ((of_int ?a :: rat) / (1 / 2 ^ n)) = ?a * 2 ^ n"
    by (simp only: round_half_even_of_int)
  have "round_double (of_int k) = sgn (of_int k) * of_int (?a * 2 ^ n) * (1 / 2 ^ n)"
    using False r ulp by (simp add: round_double_def Let_def flip: of_int_abs)
  also have "\<dots> = sgn (of_int k) * of_int ?a"
    by simp
  also have "\<dots> = of_int k"
    by (cases "0 < k") (simp_all add: sgn_if)
  finally show ?thesis .
qed

lemma py_float_exact:
  assumes "\<bar>k\<bar> < 2 ^ 53"
  shows "py_float k = Inr (of_int k)"
proof -
  have "\<bar>k\<bar> < 2 ^ 1024"
    using assms by (rule less_trans) simp
  then have "\<bar>of_int k :: rat\<bar> < 2 ^ 1024"
    by (metis of_int_abs of_int_less_iff of_int_numeral of_int_power)
  then show ?thesis
    by (simp add: py_float_def round_double_of_int [OF assms])
qed

lemma mean_nearest:
  assumes "\<bar>sum_list xs\<bar> < 2 ^ 53" "int (length xs) < 2 ^ 53"
  shows "mean xs = Inr (nearest_mean xs)"
proof (cases "xs = []")
  case True
  then show ?thesis by (simp add: mean_def nearest_mean_def)
next
  case False
  have "py_float (int (length xs)) = Inr (of_nat (length xs))"
    using py_float_exact [of "int (length xs)"] assms(2) by simp
  with False show ?thesis
    by (simp add: mean_def nearest_mean_def py_float_exact [OF assms(1)])
qed

subsection \<open>The sums of a day's seconds stay below \<open>2 ^ 53\<close>\<close>

lemma seconds_since_midnight_range:
  assumes "valid_time t"
  shows "0 \<le> seconds_since_midnight t \<and> seconds_since_midnight t \<le> 86399"
  using assms by (simp add: valid_time_def seconds_since_midnight_def)

lemma sum_list_range:
  assumes "\<forall>x\<in>set xs. 0 \<le> x \<and> x \<le> (86399 :: int)"
  shows "0 \<le> sum_list xs \<and> sum_list xs \<le> 86399 * int (length xs)"
  using assms by (induction xs) auto

lemma mean_of_seconds:
  assumes "\<forall>x\<in>set xs. 0 \<le> x \<and> x \<le> (86399 :: int)" "length xs < 2 ^ 36"
  shows "mean xs = Inr (nearest_mean xs)"
proof -
  have l: "int (length xs) < 2 ^ 36"
    using assms(2) by (metis of_nat_less_iff of_nat_numeral of_nat_power)
  have "sum_list xs \<le> 86399 * int (length xs)" "0 \<le> sum_list xs"
    using sum_list_range [OF assms(1)] by simp_all
  with l have "\<bar>sum_list xs\<bar> < 2 ^ 53" "int (length xs) < 2 ^ 53"
    by simp_all
  then show ?thesis by (rule mean_nearest)
qed

lemma mean_time_of_presence_means_Inr:
  assumes "\<forall>(dy, b)\<in>set bs. mean (start b) = Inr (nearest_mean (start b))
             \<and> mean (end' b) = Inr (nearest_mean (end' b))"
  shows "mean_time_of_presence_means bs =
           Inr (map (\<lambda>(dy, b). (dy, \<lparr>start = nearest_mean (start b),
                                      end' = nearest_mean (end' b)\<rparr>)) bs)"
  using assms by (induction bs) auto

lemma mean_time_of_presence_Inr:
  assumes "distinct (map fst items)"
    and "list_all (\<lambda>(d, r). valid_time (start r) \<and> valid_time (end' r)) items"
    and "length items < 2 ^ 36"
  shows "mean_time_of_presence items =
        Inr (map (\<lambda>w. (w,
               \<lparr>start = nearest_mean (map (\<lambda>(d, r). seconds_since_midnight (start r))
                                (filter (\<lambda>(d, r). weekday d = w) items)),
                end' = nearest_mean (map (\<lambda>(d, r). seconds_since_midnight (end' r))
                                (filter (\<lambda>(d, r). weekday d = w) items))\<rparr>)) [0..<7])"
proof -
  let ?S = "\<lambda>w. map (\<lambda>(d, r). seconds_since_midnight (start r))
                  (filter (\<lambda>(d, r). weekday d = w) items)"
  let ?E = "\<lambda>w. map (\<lambda>(d, r). seconds_since_midnight (end' r))
                  (filter (\<lambda>(d, r). weekday d = w) items)"
  have len: "length (filter p items) < 2 ^ 36" for p
    using assms(3) length_filter_le [of p items] by (rule le_less_trans [rotated])
  have s: "mean (?S w) = Inr (nearest_mean (?S w))" for w
  proof (rule mean_of_seconds)
    show "\<forall>x\<in>set (?S w). 0 \<le> x \<and> x \<le> 86399"
      using assms(2) seconds_since_midnight_range by (auto simp: list_all_iff)
    show "length (?S w) < 2 ^ 36"
      using len [of "\<lambda>(d, r). weekday d = w"] by simp
  qed
  have e: "mean (?E w) = Inr (nearest_mean (?E w))" for w
  proof (rule mean_of_seconds)
    show "\<forall>x\<in>set (?E w). 0 \<le> x \<and> x \<le> 86399"
      using assms(2) seconds_since_midnight_range by (auto simp: list_all_iff)
    show "length (?E w) < 2 ^ 36"
      using len [of "\<lambda>(d, r). weekday d = w"] by simp
  qed
  show ?thesis
    unfolding mean_time_of_presence_buckets [OF assms(1)]
    by (subst mean_time_of_presence_means_Inr) (auto simp: s e comp_def)
qed

lemma round_double_example:
  "round_double (97201 / 3) = 8906135810954581 / 274877906944"
  by code_simp

text \<open>
  Claim C6, with the mean as the program computes it. \<^verbatim>\<open>mean_time_of_presence\<close> returns a dictionary with the keys 0
  to 6; under weekday \<open>w\<close> it holds the mean of the seconds since midnight of the start
  times, and of the end times, of the entries dated on \<open>w\<close>, where the mean of a
  non-empty list is the double nearest to its arithmetic mean (the quotient of two
  floats is rounded) and the mean of an empty list is the integer 0, so a weekday
  without data has 0 in both places. This holds for valid times of day and fewer than
  \<open>2 ^ 36\<close> entries, for which every sum converts to a float exactly. A single Monday
  record from 09:00:00 to 17:00:00 gives 32400 and 61200 under 0 and zeros under 1 to
  6; \<^verbatim>\<open>mean([])\<close> is 0 and \<^verbatim>\<open>mean([10, 20, 30])\<close> is 20.0.
\<close>

theorem mean_time_of_presence_nearest_means_per_weekday:
  "(distinct (map fst items)
    \<and> list_all (\<lambda>(d, r). valid_time (start r) \<and> valid_time (end' r)) items
    \<and> length items < 2 ^ 36 \<longrightarrow>
      mean_time_of_presence items =
        Inr (map (\<lambda>w. (w,
               \<lparr>start = nearest_mean (map (\<lambda>(d, r). seconds_since_midnight (start r))
                                (filter (\<lambda>(d, r). weekday d = w) items)),
                end' = nearest_mean (map (\<lambda>(d, r). seconds_since_midnight (end' r))
                                (filter (\<lambda>(d, r). weekday d = w) items))\<rparr>)) [0..<7]))
   \<and> (xs \<noteq> [] \<longrightarrow>
        nearest_mean xs = PyFloat (round_double (of_int (sum_list xs) / of_nat (length xs))))
   \<and> nearest_mean [] = PyInt 0
   \<and> mean [] = Inr (PyInt 0)
   \<and> mean [10, 20, 30] = Inr (PyFloat 20)
   \<and> mean_time_of_presence
        [(\<lparr>year = 2023, month = 1, day = 2\<rparr>,
          \<lparr>start = \<lparr>hour = 9, minute = 0, second = 0\<rparr>,
           end' = \<lparr>hour = 17, minute = 0, second = 0\<rparr>\<rparr>)]
      = Inr [(0, \<lparr>start = PyFloat 32400, end' = PyFloat 61200\<rparr>),
             (1, \<lparr>start = PyInt 0, end' = PyInt 0\<rparr>),
             (2, \<lparr>start = PyInt 0, end' = PyInt 0\<rparr>),
             (3, \<lparr>start = PyInt 0, end' = PyInt 0\<rparr>),
             (4, \<lparr>start = PyInt 0, end' = PyInt 0\<rparr>),
             (5, \<lparr>start = PyInt 0, end' = PyInt 0\<rparr>),
             (6, \<lparr>start = PyInt 0, end' = PyInt 0\<rparr>)]"
proof (intro conjI impI)
  assume "distinct (map fst items)
    \<and> list_all (\<lambda>(d, r). valid_time (start r) \<and> valid_time (end' r)) items
    \<and> length items < 2 ^ 36"
  then show "mean_time_of_presence items =
        Inr (map (\<lambda>w. (w,
               \<lparr>start = nearest_mean (map (\<lambda>(d, r). seconds_since_midnight (start r))
                                (filter (\<lambda>(d, r). weekday d = w) items)),
                end' = nearest_mean (map (\<lambda>(d, r). seconds_since_midnight (end' r))
                                (filter (\<lambda>(d, r). weekday d = w) items))\<rparr>)) [0..<7])"
    by (intro mean_time_of_presence_Inr) simp_all
next
  assume "xs \<noteq> []"
  then show "nearest_mean xs =
               PyFloat (round_double (of_int (sum_list xs) / of_nat (length xs)))"
    by (simp add: nearest_mean_def)
next
  show "nearest_mean [] = PyInt 0"
    by (simp add: nearest_mean_def)
next
  show "mean [] = Inr (PyInt 0)"
    by (simp add: mean_def)
next
  have "nearest_mean [10, 20, 30] = PyFloat 20"
    by code_simp
  then show "mean [10, 20, 30] = Inr (PyFloat 20)"
    using mean_nearest [of "[10, 20, 30]"] by simp
next
  let ?ex = "[(\<lparr>year = 2023, month = 1, day = 2\<rparr>,
          \<lparr>start = \<lparr>hour = 9, minute = 0, second = 0\<rparr>,
           end' = \<lparr>hour = 17, minute = 0, second = 0\<rparr>\<rparr>)]"
  have n: "nearest_mean [32400] = PyFloat 32400" "nearest_mean [61200] = PyFloat 61200"
    "nearest_mean [] = PyInt 0"
    by code_simp+
  have "mean_time_of_presence ?ex =
        Inr (map (\<lambda>w. (w,
               \<lparr>start = nearest_mean (map (\<lambda>(d, r). seconds_since_midnight (start r))
                                (filter (\<lambda>(d, r). weekday d = w) ?ex)),
                end' = nearest_mean (map (\<lambda>(d, r). seconds_since_midnight (end' r))
                                (filter (\<lambda>(d, r). weekday d = w) ?ex))\<rparr>)) [0..<7])"
    by (rule mean_time_of_presence_Inr) (simp_all add: valid_time_def)
  then show "mean_time_of_presence ?ex
      = Inr [(0, \<lparr>start = PyFloat 32400, end' = PyFloat 61200\<rparr>),
             (1, \<lparr>start = PyInt 0, end' = PyInt 0\<rparr>),
             (2, \<lparr>start = PyInt 0, end' = PyInt 0\<rparr>),
             (3, \<lparr>start = PyInt 0, end' = PyInt 0\<rparr>),
             (4, \<lparr>start = PyInt 0, end' = PyInt 0\<rparr>),
             (5, \<lparr>start = PyInt 0, end' = PyInt 0\<rparr>),
             (6, \<lparr>start = PyInt 0, end' = PyInt 0\<rparr>)]"
    by (simp add: upt_0_7 weekday_examples seconds_since_midnight_def n)
qed

theorem mean_time_of_presence_nearest_means_per_weekday_witness:
  "distinct (map fst
      [(\<lparr>year = 2023, month = 1, day = 2\<rparr>,
        \<lparr>start = \<lparr>hour = 9, minute = 0, second = 0\<rparr>,
         end' = \<lparr>hour = 17, minute = 0, second = 0\<rparr>\<rparr>),
       (\<lparr>year = 2023, month = 1, day = 3\<rparr>,
        \<lparr>start = \<lparr>hour = 8, minute = 30, second = 0\<rparr>,
         end' = \<lparr>hour = 16, minute = 45, second = 0\<rparr>\<rparr>),
       (\<lparr>year = 2023, month = 1, day = 9\<rparr>,
        \<lparr>start = \<lparr>hour = 9, minute = 0, second = 1\<rparr>,
         end' = \<lparr>hour = 17, minute = 30, second = 0\<rparr>\<rparr>),
       (\<lparr>year = 2023, month = 1, day = 16\<rparr>,
        \<lparr>start = \<lparr>hour = 9, minute = 0, second = 0\<rparr>,
         end' = \<lparr>hour = 17, minute = 0, second = 0\<rparr>\<rparr>)])
   \<and> list_all (\<lambda>(d, r). valid_time (start r) \<and> valid_time (end' r))
      [(\<lparr>year = 2023, month = 1, day = 2\<rparr>,
        \<lparr>start = \<lparr>hour = 9, minute = 0, second = 0\<rparr>,
         end' = \<lparr>hour = 17, minute = 0, second = 0\<rparr>\<rparr>),
       (\<lparr>year = 2023, month = 1, day = 3\<rparr>,
        \<lparr>start = \<lparr>hour = 8, minute = 30, second = 0\<rparr>,
         end' = \<lparr>hour = 16, minute = 45, second = 0\<rparr>\<rparr>),
       (\<lparr>year = 2023, month = 1, day = 9\<rparr>,
        \<lparr>start = \<lparr>hour = 9, minute = 0, second = 1\<rparr>,
         end' = \<lparr>hour = 17, minute = 30, second = 0\<rparr>\<rparr>),
       (\<lparr>year = 2023, month = 1, day = 16\<rparr>,
        \<lparr>start = \<lparr>hour = 9, minute = 0, second = 0\<rparr>,
         end' = \<lparr>hour = 17, minute = 0, second = 0\<rparr>\<rparr>)]
   \<and> length
      [(\<lparr>year = 2023, month = 1, day = 2\<rparr>,
        \<lparr>start = \<lparr>hour = 9, minute = 0, second = 0\<rparr>,
         end' = \<lparr>hour = 17, minute = 0, second = 0\<rparr>\<rparr>),
       (\<lparr>year = 2023, month = 1, day = 3\<rparr>,
        \<lparr>start = \<lparr>hour = 8, minute = 30, second = 0\<rparr>,
         end' = \<lparr>hour = 16, minute = 45, second = 0\<rparr>\<rparr>),
       (\<lparr>year = 2023, month = 1, day = 9\<rparr>,
        \<lparr>start = \<lparr>hour = 9, minute = 0, second = 1\<rparr>,
         end' = \<lparr>hour = 17, minute = 30, second = 0\<rparr>\<rparr>),
       (\<lparr>year = 2023, month = 1, day = 16\<rparr>,
        \<lparr>start = \<lparr>hour = 9, minute = 0, second = 0\<rparr>,
         end' = \<lparr>hour = 17, minute = 0, second = 0\<rparr>\<rparr>)] < 2 ^ 36
   \<and> mean_time_of_presence
      [(\<lparr>year = 2023, month = 1, day = 2\<rparr>,
        \<lparr>start = \<lparr>hour = 9, minute = 0, second = 0\<rparr>,
         end' = \<lparr>hour = 17, minute = 0, second = 0\<rparr>\<rparr>),
       (\<lparr>year = 2023, month = 1, day = 3\<rparr>,
        \<lparr>start = \<lparr>hour = 8, minute = 30, second = 0\<rparr>,
         end' = \<lparr>hour = 16, minute = 45, second = 0\<rparr>\<rparr>),
       (\<lparr>year = 2023, month = 1, day = 9\<rparr>,
        \<lparr>start = \<lparr>hour = 9, minute = 0, second = 1\<rparr>,
         end' = \<lparr>hour = 17, minute = 30, second = 0\<rparr>\<rparr>),
       (\<lparr>year = 2023, month = 1, day = 16\<rparr>,
        \<lparr>start = \<lparr>hour = 9, minute = 0, second = 0\<rparr>,
         end' = \<lparr>hour = 17, minute = 0, second = 0\<rparr>\<rparr>)]
      = Inr [(0, \<lparr>start = PyFloat (8906135810954581 / 274877906944),
                  end' = PyFloat 61800\<rparr>),
             (1, \<lparr>start = PyFloat 30600, end' = PyFloat 60300\<rparr>),
             (2, \<lparr>start = PyInt 0, end' = PyInt 0\<rparr>),
             (3, \<lparr>start = PyInt 0, end' = PyInt 0\<rparr>),
             (4, \<lparr>start = PyInt 0, end' = PyInt 0\<rparr>),
             (5, \<lparr>start = PyInt 0, end' = PyInt 0\<rparr>),
             (6, \<lparr>start = PyInt 0, end' = PyInt 0\<rparr>)]
   \<and> [32400, 32401, 32400 :: int] \<noteq> []
   \<and> nearest_mean [32400, 32401, 32400] = PyFloat (8906135810954581 / 274877906944)"
proof -
  let ?ex = "[(\<lparr>year = 2023, month = 1, day = 2\<rparr>,
        \<lparr>start = \<lparr>hour = 9, minute = 0, second = 0\<rparr>,
         end' = \<lparr>hour = 17, minute = 0, second = 0\<rparr>\<rparr>),
       (\<lparr>year = 2023, month = 1, day = 3\<rparr>,
        \<lparr>start = \<lparr>hour = 8, minute = 30, second = 0\<rparr>,
         end' = \<lparr>hour = 16, minute = 45, second = 0\<rparr>\<rparr>),
       (\<lparr>year = 2023, month = 1, day = 9\<rparr>,
        \<lparr>start = \<lparr>hour = 9, minute = 0, second = 1\<rparr>,
         end' = \<lparr>hour = 17, minute = 30, second = 0\<rparr>\<rparr>),
       (\<lparr>year = 2023, month = 1, day = 16\<rparr>,
        \<lparr>start = \<lparr>hour = 9, minute = 0, second = 0\<rparr>,
         end' = \<lparr>hour = 17, minute = 0, second = 0\<rparr>\<rparr>)]"
  have h: "distinct (map fst ?ex)
    \<and> list_all (\<lambda>(d, r). valid_time (start r) \<and> valid_time (end' r)) ?ex
    \<and> length ?ex < 2 ^ 36"
    by (simp add: valid_time_def)
  note t = mean_time_of_presence_nearest_means_per_weekday [of ?ex "[32400, 32401, 32400]"]
  have wd: "weekday \<lparr>year = 2023, month = 1, day = 16\<rparr> = 0"
    by code_simp
  have n: "nearest_mean [32400, 32401, 32400] = PyFloat (8906135810954581 / 274877906944)"
    using t [THEN conjunct2, THEN conjunct1] by (simp add: round_double_example)
  have e: "nearest_mean [61200, 63000, 61200] = PyFloat 61800"
    "nearest_mean [30600] = PyFloat 30600" "nearest_mean [60300] = PyFloat 60300"
    "nearest_mean [] = PyInt 0"
    by code_simp+
  have "mean_time_of_presence ?ex =
        Inr (map (\<lambda>w. (w,
               \<lparr>start = nearest_mean (map (\<lambda>(d, r). seconds_since_midnight (start r))
                                (filter (\<lambda>(d, r). weekday d = w) ?ex)),
                end' = nearest_mean (map (\<lambda>(d, r). seconds_since_midnight (end' r))
                                (filter (\<lambda>(d, r). weekday d = w) ?ex))\<rparr>)) [0..<7])"
    using t [THEN conjunct1, THEN mp, OF h] .
  then have "mean_time_of_presence ?ex
      = Inr [(0, \<lparr>start = PyFloat (8906135810954581 / 274877906944),
                  end' = PyFloat 61800\<rparr>),
             (1, \<lparr>start = PyFloat 30600, end' = PyFloat 60300\<rparr>),
             (2, \<lparr>start = PyInt 0, end' = PyInt 0\<rparr>),
             (3, \<lparr>start = PyInt 0, end' = PyInt 0\<rparr>),
             (4, \<lparr>start = PyInt 0, end' = PyInt 0\<rparr>),
             (5, \<lparr>start = PyInt 0, end' = PyInt 0\<rparr>),
             (6, \<lparr>start = PyInt 0, end' = PyInt 0\<rparr>)]"
    by (simp add: upt_0_7 weekday_examples wd seconds_since_midnight_def n e)
  with h n show ?thesis by simp
qed

text \<open>
  Claim C6 read with the exact arithmetic mean does not hold. For three Mondays with the
  starts 09:00:00, 09:00:00 and 09:00:01 the arithmetic mean of the starts is
  \<open>97201 / 3\<close>, which is no double; the program returns the double next to it.
\<close>

theorem mean_time_of_presence_exact_mean_counterexample:
  "mean_time_of_presence
      [(\<lparr>year = 2023, month = 1, day = 2\<rparr>,
        \<lparr>start = \<lparr>hour = 9, minute = 0, second = 0\<rparr>,
         end' = \<lparr>hour = 17, minute = 0, second = 0\<rparr>\<rparr>),
       (\<lparr>year = 2023, month = 1, day = 9\<rparr>,
        \<lparr>start = \<lparr>hour = 9, minute = 0, second = 0\<rparr>,
         end' = \<lparr>hour = 17, minute = 0, second = 0\<rparr>\<rparr>),
       (\<lparr>year = 2023, month = 1, day = 16\<rparr>,
        \<lparr>start = \<lparr>hour = 9, minute = 0, second = 1\<rparr>,
         end' = \<lparr>hour = 17, minute = 0, second = 0\<rparr>\<rparr>)]
     = Inr [(0, \<lparr>start = PyFloat (8906135810954581 / 274877906944),
                 end' = PyFloat 61200\<rparr>),
            (1, \<lparr>start = PyInt 0, end' = PyInt 0\<rparr>),
             (2, \<lparr>start = PyInt 0, end' = PyInt 0\<rparr>),
             (3, \<lparr>start = PyInt 0, end' = PyInt 0\<rparr>),
             (4, \<lparr>start = PyInt 0, end' = PyInt 0\<rparr>),
             (5, \<lparr>start = PyInt 0, end' = PyInt 0\<rparr>),
             (6, \<lparr>start = PyInt 0, end' = PyInt 0\<rparr>)]
   \<and> (8906135810954581 / 274877906944 :: rat) \<noteq>
       of_int (sum_list [32400, 32400, 32401]) / of_nat (length [32400, 32400, 32401 :: int])"
proof (intro conjI)
  let ?ex = "[(\<lparr>year = 2023, month = 1, day = 2\<rparr>,
        \<lparr>start = \<lparr>hour = 9, minute = 0, second = 0\<rparr>,
         end' = \<lparr>hour = 17, minute = 0, second = 0\<rparr>\<rparr>),
       (\<lparr>year = 2023, month = 1, day = 9\<rparr>,
        \<lparr>start = \<lparr>hour = 9, minute = 0, second = 0\<rparr>,
         end' = \<lparr>hour = 17, minute = 0, second = 0\<rparr>\<rparr>),
       (\<lparr>year = 2023, month = 1, day = 16\<rparr>,
        \<lparr>start = \<lparr>hour = 9, minute = 0, second = 1\<rparr>,
         end' = \<lparr>hour = 17, minute = 0, second = 0\<rparr>\<rparr>)]"
  have wd: "weekday \<lparr>year = 2023, month = 1, day = 16\<rparr> = 0"
    by code_simp
  have n: "nearest_mean [32400, 32400, 32401] = PyFloat (8906135810954581 / 274877906944)"
    "nearest_mean [61200, 61200, 61200] = PyFloat 61200" "nearest_mean [] = PyInt 0"
    by code_simp+
  have "mean_time_of_presence ?ex =
        Inr (map (\<lambda>w. (w,
               \<lparr>start = nearest_mean (map (\<lambda>(d, r). seconds_since_midnight (start r))
                                (filter (\<lambda>(d, r). weekday d = w) ?ex)),
                end' = nearest_mean (map (\<lambda>(d, r). seconds_since_midnight (end' r))
                                (filter (\<lambda>(d, r). weekday d = w) ?ex))\<rparr>)) [0..<7])"
    by (rule mean_time_of_presence_Inr) (simp_all add: valid_time_def)
  then show "mean_time_of_presence ?ex
     = Inr [(0, \<lparr>start = PyFloat (8906135810954581 / 274877906944),
                 end' = PyFloat 61200\<rparr>),
            (1, \<lparr>start = PyInt 0, end' = PyInt 0\<rparr>),
             (2, \<lparr>start = PyInt 0, end' = PyInt 0\<rparr>),
             (3, \<lparr>start = PyInt 0, end' = PyInt 0\<rparr>),
             (4, \<lparr>start = PyInt 0, end' = PyInt 0\<rparr>),
             (5, \<lparr>start = PyInt 0, end' = PyInt 0\<rparr>),
             (6, \<lparr>start = PyInt 0, end' = PyInt 0\<rparr>)]"
    by (simp add: upt_0_7 weekday_examples wd seconds_since_midnight_def n)
next
  show "(8906135810954581 / 274877906944 :: rat) \<noteq>
       of_int (sum_list [32400, 32400, 32401]) / of_nat (length [32400, 32400, 32401 :: int])"
    by simp
qed

section \<open>Properties of the cache layer\<close>

lemma memoize_hit:
  assumes "CACHE w (func_name function) = Some entry" "time entry > now"
  shows "memoize duration function now args w = (Inr (value' entry), w)"
  using assms by (simp add: memoize_def Let_def)

lemma memoize_miss_ok:
  assumes "\<not> unexpired w (func_name function) now" "call function args = Inr result"
  shows "memoize duration function now args w =
           (Inr result,
            w\<lparr>CACHE := (CACHE w)(func_name function \<mapsto>
                  \<lparr>time = now + of_int duration, value' = result\<rparr>),
              calls := calls w @ [func_name function]\<rparr>)"
  using assms by (auto simp: memoize_def unexpired_def Let_def split: option.splits)

lemma memoize_miss_raise:
  assumes "\<not> unexpired w (func_name function) now" "call function args = Inl err"
  shows "memoize duration function now args w =
           (Inl err, w\<lparr>calls := calls w @ [func_name function]\<rparr>)"
  using assms by (auto simp: memoize_def unexpired_def Let_def split: option.splits)

lemma unexpired_calls [simp]: "unexpired (w\<lparr>calls := c\<rparr>) key now = unexpired w key now"
  by (simp add: unexpired_def)

lemma unexpired_mono:
  assumes "\<not> unexpired w key now" "now \<le> now2"
  shows "\<not> unexpired w key now2"
  using assms by (auto simp: unexpired_def split: option.splits)

lemma get_data_examples:
  "get_data plain_parsers (Some [[''1'', ''2023-01-02'', ''09:00:00'', ''17:00:00'']]) = ([], Inr [(1, [(\<lparr>year = 2023, month = 1, day = 2\<rparr>,
               \<lparr>start = \<lparr>hour = 9, minute = 0, second = 0\<rparr>,
                end' = \<lparr>hour = 17, minute = 0, second = 0\<rparr>\<rparr>)])])"
  "get_data plain_parsers (Some []) = ([], Inr [])"
  by code_simp+

text \<open>
  Claim C2. A call of a function wrapped with \<^verbatim>\<open>memoize(600)\<close> returns the stored value
  when the stored time is strictly greater than the clock reading, and nothing else
  happens. Otherwise it invokes the wrapped function, stores the result with the time
  \<open>now + 600\<close> under the function's name (one entry per name: the other keys keep their
  entries) and returns the result. So after a call that stored a result at \<open>now\<close>, every
  call before \<open>now + 600\<close> returns that same value without invoking the function,
  whatever the arguments, and a call at \<open>now + 600\<close> or later invokes it exactly once
  and stores the new result.
\<close>

theorem memoize_600_window:
  "(\<forall>entry. CACHE w (func_name function) = Some entry \<and> time entry > now \<longrightarrow>
       memoize 600 function now args w = (Inr (value' entry), w))
   \<and> (\<forall>result. \<not> unexpired w (func_name function) now \<and> call function args = Inr result \<longrightarrow>
        (let w1 = w\<lparr>CACHE := (CACHE w)(func_name function \<mapsto>
                        \<lparr>time = now + 600, value' = result\<rparr>),
                    calls := calls w @ [func_name function]\<rparr>
         in memoize 600 function now args w = (Inr result, w1)
            \<and> (\<forall>now2 args2. now2 < now + 600 \<longrightarrow>
                  memoize 600 function now2 args2 w1 = (Inr result, w1))
            \<and> (\<forall>now2 args2 result2.
                  now + 600 \<le> now2 \<and> call function args2 = Inr result2 \<longrightarrow>
                  memoize 600 function now2 args2 w1 =
                    (Inr result2,
                     w1\<lparr>CACHE := (CACHE w1)(func_name function \<mapsto>
                            \<lparr>time = now2 + 600, value' = result2\<rparr>),
                        calls := calls w1 @ [func_name function]\<rparr>))))"
proof (intro conjI allI impI)
  fix entry
  assume "CACHE w (func_name function) = Some entry \<and> time entry > now"
  then show "memoize 600 function now args w = (Inr (value' entry), w)"
    by (simp add: memoize_hit)
next
  fix result
  assume a: "\<not> unexpired w (func_name function) now \<and> call function args = Inr result"
  define w1 where "w1 = w\<lparr>CACHE := (CACHE w)(func_name function \<mapsto>
                        \<lparr>time = now + 600, value' = result\<rparr>),
                    calls := calls w @ [func_name function]\<rparr>"
  have first: "memoize 600 function now args w = (Inr result, w1)"
    using a memoize_miss_ok [of w "function" now args result 600] by (simp add: w1_def)
  have hit: "memoize 600 function now2 args2 w1 = (Inr result, w1)"
    if "now2 < now + 600" for now2 args2
    using that
    by (intro memoize_hit [where entry = "\<lparr>time = now + 600, value' = result\<rparr>", simplified])
       (simp_all add: w1_def)
  have reload: "memoize 600 function now2 args2 w1 =
                    (Inr result2,
                     w1\<lparr>CACHE := (CACHE w1)(func_name function \<mapsto>
                            \<lparr>time = now2 + 600, value' = result2\<rparr>),
                        calls := calls w1 @ [func_name function]\<rparr>)"
    if "now + 600 \<le> now2 \<and> call function args2 = Inr result2" for now2 args2 result2
  proof -
    have "\<not> unexpired w1 (func_name function) now2"
      using that by (simp add: w1_def unexpired_def)
    then show ?thesis
      using that memoize_miss_ok [of w1 "function" now2 args2 result2 600] by simp
  qed
  show "let w1 = w\<lparr>CACHE := (CACHE w)(func_name function \<mapsto>
                        \<lparr>time = now + 600, value' = result\<rparr>),
                    calls := calls w @ [func_name function]\<rparr>
         in memoize 600 function now args w = (Inr result, w1)
            \<and> (\<forall>now2 args2. now2 < now + 600 \<longrightarrow>
                  memoize 600 function now2 args2 w1 = (Inr result, w1))
            \<and> (\<forall>now2 args2 result2.
                  now + 600 \<le> now2 \<and> call function args2 = Inr result2 \<longrightarrow>
                  memoize 600 function now2 args2 w1 =
                    (Inr result2,
                     w1\<lparr>CACHE := (CACHE w1)(func_name function \<mapsto>
                            \<lparr>time = now2 + 600, value' = result2\<rparr>),
                        calls := calls w1 @ [func_name function]\<rparr>))"
    unfolding Let_def w1_def [symmetric] using first hit reload by blast
qed


theorem memoize_600_window_witness:
  "\<not> unexpired (\<lparr>CACHE = Map.empty, calls = []\<rparr> :: attendance world) ''get_data'' 1000
   \<and> call (get_data_function plain_parsers) (Some [[''1'', ''2023-01-02'', ''09:00:00'', ''17:00:00'']])
       = Inr [(1, [(\<lparr>year = 2023, month = 1, day = 2\<rparr>,
               \<lparr>start = \<lparr>hour = 9, minute = 0, second = 0\<rparr>,
                end' = \<lparr>hour = 17, minute = 0, second = 0\<rparr>\<rparr>)])]
   \<and> memoize 600 (get_data_function plain_parsers) 1000 (Some [[''1'', ''2023-01-02'', ''09:00:00'', ''17:00:00'']])
        \<lparr>CACHE = Map.empty, calls = []\<rparr>
      = (Inr [(1, [(\<lparr>year = 2023, month = 1, day = 2\<rparr>,
               \<lparr>start = \<lparr>hour = 9, minute = 0, second = 0\<rparr>,
                end' = \<lparr>hour = 17, minute = 0, second = 0\<rparr>\<rparr>)])],
         \<lparr>CACHE = [''get_data'' \<mapsto> \<lparr>time = 1600, value' = [(1, [(\<lparr>year = 2023, month = 1, day = 2\<rparr>,
               \<lparr>start = \<lparr>hour = 9, minute = 0, second = 0\<rparr>,
                end' = \<lparr>hour = 17, minute = 0, second = 0\<rparr>\<rparr>)])]\<rparr>],
          calls = [''get_data'']\<rparr>)
   \<and> memoize 600 (get_data_function plain_parsers) 1599 (Some [])
        \<lparr>CACHE = [''get_data'' \<mapsto> \<lparr>time = 1600, value' = [(1, [(\<lparr>year = 2023, month = 1, day = 2\<rparr>,
               \<lparr>start = \<lparr>hour = 9, minute = 0, second = 0\<rparr>,
                end' = \<lparr>hour = 17, minute = 0, second = 0\<rparr>\<rparr>)])]\<rparr>],
          calls = [''get_data'']\<rparr>
      = (Inr [(1, [(\<lparr>year = 2023, month = 1, day = 2\<rparr>,
               \<lparr>start = \<lparr>hour = 9, minute = 0, second = 0\<rparr>,
                end' = \<lparr>hour = 17, minute = 0, second = 0\<rparr>\<rparr>)])],
         \<lparr>CACHE = [''get_data'' \<mapsto> \<lparr>time = 1600, value' = [(1, [(\<lparr>year = 2023, month = 1, day = 2\<rparr>,
               \<lparr>start = \<lparr>hour = 9, minute = 0, second = 0\<rparr>,
                end' = \<lparr>hour = 17, minute = 0, second = 0\<rparr>\<rparr>)])]\<rparr>],
          calls = [''get_data'']\<rparr>)
   \<and> memoize 600 (get_data_function plain_parsers) 1600 (Some [])
        \<lparr>CACHE = [''get_data'' \<mapsto> \<lparr>time = 1600, value' = [(1, [(\<lparr>year = 2023, month = 1, day = 2\<rparr>,
               \<lparr>start = \<lparr>hour = 9, minute = 0, second = 0\<rparr>,
                end' = \<lparr>hour = 17, minute = 0, second = 0\<rparr>\<rparr>)])]\<rparr>],
          calls = [''get_data'']\<rparr>
      = (Inr [],
         \<lparr>CACHE = [''get_data'' \<mapsto> \<lparr>time = 2200, value' = []\<rparr>],
          calls = [''get_data'', ''get_data'']\<rparr>)"
proof -
  let ?f = "get_data_function plain_parsers"
  let ?w = "\<lparr>CACHE = Map.empty, calls = []\<rparr> :: attendance world"
  let ?a = "(Some [[''1'', ''2023-01-02'', ''09:00:00'', ''17:00:00'']])"
  let ?d = "[(1, [(\<lparr>year = 2023, month = 1, day = 2\<rparr>,
               \<lparr>start = \<lparr>hour = 9, minute = 0, second = 0\<rparr>,
                end' = \<lparr>hour = 17, minute = 0, second = 0\<rparr>\<rparr>)])]"
  have n: "func_name ?f = ''get_data''"
    by (simp add: get_data_function_def)
  have u: "\<not> unexpired ?w ''get_data'' 1000"
    by (simp add: unexpired_def)
  have c: "call ?f ?a = Inr ?d" "call ?f (Some []) = Inr []"
    by (simp_all add: get_data_function_def get_data_examples)
  from memoize_600_window [of ?w ?f 1000 ?a] u c(1)
  have m: "memoize 600 ?f 1000 ?a ?w =
          (Inr ?d, \<lparr>CACHE = [''get_data'' \<mapsto> \<lparr>time = 1600, value' = ?d\<rparr>],
                    calls = [''get_data'']\<rparr>)"
      "\<And>now2 args2. now2 < 1600 \<Longrightarrow>
          memoize 600 ?f now2 args2
            \<lparr>CACHE = [''get_data'' \<mapsto> \<lparr>time = 1600, value' = ?d\<rparr>], calls = [''get_data'']\<rparr>
          = (Inr ?d, \<lparr>CACHE = [''get_data'' \<mapsto> \<lparr>time = 1600, value' = ?d\<rparr>],
                      calls = [''get_data'']\<rparr>)"
      "\<And>now2 args2 result2. 1600 \<le> now2 \<Longrightarrow> call ?f args2 = Inr result2 \<Longrightarrow>
          memoize 600 ?f now2 args2
            \<lparr>CACHE = [''get_data'' \<mapsto> \<lparr>time = 1600, value' = ?d\<rparr>], calls = [''get_data'']\<rparr>
          = (Inr result2,
             \<lparr>CACHE = [''get_data'' \<mapsto> \<lparr>time = now2 + 600, value' = result2\<rparr>],
              calls = [''get_data'', ''get_data'']\<rparr>)"
    by (simp_all add: n Let_def)
  have m2: "memoize 600 ?f 1599 (Some [])
            \<lparr>CACHE = [''get_data'' \<mapsto> \<lparr>time = 1600, value' = ?d\<rparr>], calls = [''get_data'']\<rparr>
          = (Inr ?d, \<lparr>CACHE = [''get_data'' \<mapsto> \<lparr>time = 1600, value' = ?d\<rparr>],
                      calls = [''get_data'']\<rparr>)"
    by (rule m(2)) simp
  have m3: "memoize 600 ?f 1600 (Some [])
            \<lparr>CACHE = [''get_data'' \<mapsto> \<lparr>time = 1600, value' = ?d\<rparr>], calls = [''get_data'']\<rparr>
          = (Inr [],
             \<lparr>CACHE = [''get_data'' \<mapsto> \<lparr>time = 2200, value' = []\<rparr>],
              calls = [''get_data'', ''get_data'']\<rparr>)"
    using m(3) [of 1600 "Some []" "[]"] c(2) by simp
  show ?thesis
    by (intro conjI u c(1) m(1) m2 m3)
qed

text \<open>
  Claim C9. The key of a cache entry is the name of the wrapped function and nothing
  else: a call that stores a result adds no key but that name, and until the entry
  expires every call under that name, with any arguments, returns the value that the
  storing call computed from its own arguments.
\<close>

theorem memoize_key_is_the_name:
  assumes "\<not> unexpired w (func_name function) now"
    and "call function args = Inr result"
    and "func_name function2 = func_name function"
    and "now2 < now + of_int duration"
  shows "dom (CACHE (snd (memoize duration function now args w))) =
           insert (func_name function) (dom (CACHE w))
         \<and> memoize duration function2 now2 args2 (snd (memoize duration function now args w)) =
             (Inr result, snd (memoize duration function now args w))"
proof -
  let ?w1 = "w\<lparr>CACHE := (CACHE w)(func_name function \<mapsto>
                  \<lparr>time = now + of_int duration, value' = result\<rparr>),
              calls := calls w @ [func_name function]\<rparr>"
  have first: "memoize duration function now args w = (Inr result, ?w1)"
    using assms(1,2) by (rule memoize_miss_ok)
  have "memoize duration function2 now2 args2 ?w1 = (Inr result, ?w1)"
    using assms(3,4)
    by (intro memoize_hit [where entry = "\<lparr>time = now + of_int duration, value' = result\<rparr>",
          simplified]) simp_all
  with first show ?thesis by simp
qed

theorem memoize_key_is_the_name_witness:
  "\<not> unexpired (\<lparr>CACHE = Map.empty, calls = []\<rparr> :: int world)
        (func_name \<lparr>func_name = ''load'', call = (\<lambda>n::int. Inr (n + 1) :: py_error + int)\<rparr>) 50
   \<and> call \<lparr>func_name = ''load'', call = (\<lambda>n::int. Inr (n + 1) :: py_error + int)\<rparr> 1 = Inr 2
   \<and> func_name \<lparr>func_name = ''load'', call = (\<lambda>n::int. Inr (n * 10) :: py_error + int)\<rparr> =
      func_name \<lparr>func_name = ''load'', call = (\<lambda>n::int. Inr (n + 1) :: py_error + int)\<rparr>
   \<and> (80 :: rat) < 50 + of_int 60
   \<and> memoize 60 \<lparr>func_name = ''load'', call = (\<lambda>n::int. Inr (n * 10) :: py_error + int)\<rparr> 80 7
        (snd (memoize 60 \<lparr>func_name = ''load'', call = (\<lambda>n::int. Inr (n + 1) :: py_error + int)\<rparr>
                50 1 \<lparr>CACHE = Map.empty, calls = []\<rparr>))
      = (Inr 2, \<lparr>CACHE = [''load'' \<mapsto> \<lparr>time = 110, value' = 2\<rparr>], calls = [''load'']\<rparr>)"
proof -
  let ?f = "\<lparr>func_name = ''load'', call = (\<lambda>n::int. Inr (n + 1) :: py_error + int)\<rparr>"
  let ?g = "\<lparr>func_name = ''load'', call = (\<lambda>n::int. Inr (n * 10) :: py_error + int)\<rparr>"
  let ?w = "\<lparr>CACHE = Map.empty, calls = []\<rparr> :: int world"
  have u: "\<not> unexpired ?w (func_name ?f) 50"
    by (simp add: unexpired_def)
  have s: "snd (memoize 60 ?f 50 1 ?w) =
             \<lparr>CACHE = [''load'' \<mapsto> \<lparr>time = 110, value' = 2\<rparr>], calls = [''load'']\<rparr>"
    by (simp add: memoize_def Let_def)
  from memoize_key_is_the_name [of ?w ?f 50 1 2 ?g 80 60 7] u
  show ?thesis by (simp add: s)
qed

text \<open>
  Claim C3. When the wrapped function raises, the call raises the same exception and
  \<^verbatim>\<open>CACHE\<close> is as it was; the next call (the clock does not go back) invokes the function
  again and returns what it returns now. An entry of \<^verbatim>\<open>CACHE\<close> after any call is either
  the entry from before or holds a value the wrapped function has just returned: no
  failure is stored. Both loaders raise when their file cannot be read.
\<close>

theorem memoize_failure_is_not_cached:
  "(\<not> unexpired w (func_name function) now \<and> call function args = Inl err \<longrightarrow>
      memoize duration function now args w =
        (Inl err, w\<lparr>calls := calls w @ [func_name function]\<rparr>)
      \<and> (\<forall>now2 args2. now \<le> now2 \<longrightarrow>
            fst (memoize duration function now2 args2
                   (w\<lparr>calls := calls w @ [func_name function]\<rparr>)) = call function args2
            \<and> calls (snd (memoize duration function now2 args2
                   (w\<lparr>calls := calls w @ [func_name function]\<rparr>))) =
                calls w @ [func_name function, func_name function]))
   \<and> (\<forall>key entry. CACHE (snd (memoize duration function now args w)) key = Some entry \<longrightarrow>
         CACHE w key = Some entry \<or> call function args = Inr (value' entry))
   \<and> snd (get_data P None) = Inl IOError
   \<and> get_data_xml P (Inl err) = Inl err"
proof (intro conjI allI impI)
  assume a: "\<not> unexpired w (func_name function) now \<and> call function args = Inl err"
  then show "memoize duration function now args w =
        (Inl err, w\<lparr>calls := calls w @ [func_name function]\<rparr>)"
    by (simp add: memoize_miss_raise)
  fix now2 :: rat and args2
  assume "now \<le> now2"
  with a have u: "\<not> unexpired (w\<lparr>calls := calls w @ [func_name function]\<rparr>) (func_name function) now2"
    using unexpired_mono [of w "func_name function" now now2] by simp
  show "fst (memoize duration function now2 args2
                   (w\<lparr>calls := calls w @ [func_name function]\<rparr>)) = call function args2"
    using memoize_miss_ok [OF u] memoize_miss_raise [OF u]
    by (cases "call function args2") simp_all
  show "calls (snd (memoize duration function now2 args2
                   (w\<lparr>calls := calls w @ [func_name function]\<rparr>))) =
                calls w @ [func_name function, func_name function]"
    using memoize_miss_ok [OF u] memoize_miss_raise [OF u]
    by (cases "call function args2") simp_all
next
  fix key entry
  assume "CACHE (snd (memoize duration function now args w)) key = Some entry"
  then show "CACHE w key = Some entry \<or> call function args = Inr (value' entry)"
    by (auto simp: memoize_def Let_def split: option.splits sum.splits if_splits)
next
  show "snd (get_data P None) = Inl IOError"
    by (simp add: get_data_def)
next
  show "get_data_xml P (Inl err) = Inl err"
    by (simp add: get_data_xml_def)
qed


theorem memoize_failure_is_not_cached_witness:
  "\<not> unexpired \<lparr>CACHE = [''get_data'' \<mapsto> \<lparr>time = 1000, value' = [(1, [(\<lparr>year = 2023, month = 1, day = 2\<rparr>,
               \<lparr>start = \<lparr>hour = 9, minute = 0, second = 0\<rparr>,
                end' = \<lparr>hour = 17, minute = 0, second = 0\<rparr>\<rparr>)])]\<rparr>],
                  calls = [''get_data'']\<rparr> ''get_data'' 1000
   \<and> call (get_data_function plain_parsers) None = Inl IOError
   \<and> memoize 600 (get_data_function plain_parsers) 1000 None
        \<lparr>CACHE = [''get_data'' \<mapsto> \<lparr>time = 1000, value' = [(1, [(\<lparr>year = 2023, month = 1, day = 2\<rparr>,
               \<lparr>start = \<lparr>hour = 9, minute = 0, second = 0\<rparr>,
                end' = \<lparr>hour = 17, minute = 0, second = 0\<rparr>\<rparr>)])]\<rparr>],
         calls = [''get_data'']\<rparr>
      = (Inl IOError,
         \<lparr>CACHE = [''get_data'' \<mapsto> \<lparr>time = 1000, value' = [(1, [(\<lparr>year = 2023, month = 1, day = 2\<rparr>,
               \<lparr>start = \<lparr>hour = 9, minute = 0, second = 0\<rparr>,
                end' = \<lparr>hour = 17, minute = 0, second = 0\<rparr>\<rparr>)])]\<rparr>],
          calls = [''get_data'', ''get_data'']\<rparr>)
   \<and> (1000 :: rat) \<le> 1001
   \<and> fst (memoize 600 (get_data_function plain_parsers) 1001 (Some [])
        \<lparr>CACHE = [''get_data'' \<mapsto> \<lparr>time = 1000, value' = [(1, [(\<lparr>year = 2023, month = 1, day = 2\<rparr>,
               \<lparr>start = \<lparr>hour = 9, minute = 0, second = 0\<rparr>,
                end' = \<lparr>hour = 17, minute = 0, second = 0\<rparr>\<rparr>)])]\<rparr>],
         calls = [''get_data'', ''get_data'']\<rparr>) = Inr []
   \<and> calls (snd (memoize 600 (get_data_function plain_parsers) 1001 (Some [])
        \<lparr>CACHE = [''get_data'' \<mapsto> \<lparr>time = 1000, value' = [(1, [(\<lparr>year = 2023, month = 1, day = 2\<rparr>,
               \<lparr>start = \<lparr>hour = 9, minute = 0, second = 0\<rparr>,
                end' = \<lparr>hour = 17, minute = 0, second = 0\<rparr>\<rparr>)])]\<rparr>],
         calls = [''get_data'', ''get_data'']\<rparr>)) = [''get_data'', ''get_data'', ''get_data'']"
proof -
  let ?f = "get_data_function plain_parsers"
  let ?w = "\<lparr>CACHE = [''get_data'' \<mapsto> \<lparr>time = 1000, value' = [(1, [(\<lparr>year = 2023, month = 1, day = 2\<rparr>,
               \<lparr>start = \<lparr>hour = 9, minute = 0, second = 0\<rparr>,
                end' = \<lparr>hour = 17, minute = 0, second = 0\<rparr>\<rparr>)])]\<rparr>],
             calls = [''get_data'']\<rparr>"
  have n: "func_name ?f = ''get_data''"
    by (simp add: get_data_function_def)
  have u: "\<not> unexpired ?w ''get_data'' 1000"
    by (simp add: unexpired_def)
  have c: "call ?f None = Inl IOError" "call ?f (Some []) = Inr []"
    by (simp_all add: get_data_function_def get_data_def get_data_examples)
  have u': "\<not> unexpired ?w (func_name ?f) 1000"
    using u by (simp only: n)
  note t = memoize_failure_is_not_cached
    [of ?w ?f 1000 None IOError 600 plain_parsers, THEN conjunct1, THEN mp, OF conjI [OF u' c(1)]]
  have m1: "memoize 600 ?f 1000 None ?w =
              (Inl IOError, ?w\<lparr>calls := [''get_data'', ''get_data'']\<rparr>)"
    using t [THEN conjunct1] by (simp add: n)
  have m2: "fst (memoize 600 ?f 1001 (Some []) (?w\<lparr>calls := [''get_data'', ''get_data'']\<rparr>)) =
              Inr []"
    "calls (snd (memoize 600 ?f 1001 (Some []) (?w\<lparr>calls := [''get_data'', ''get_data'']\<rparr>))) =
       [''get_data'', ''get_data'', ''get_data'']"
    using t [THEN conjunct2, rule_format, of 1001 "Some []"] c(2) by (simp_all add: n)
  show ?thesis
    using u c(1) m1 m2 by simp
qed

section \<open>Properties of the directory loader\<close>

lemma find_text_child:
  "child_text t el = Some s \<Longrightarrow> find_text t (Some el) = Inr (Some s)"
  by (auto simp: child_text_def find_text_def split: option.splits)

lemma user_entry_well_formed:
  assumes "child_text ''protocol'' server = Some protocol"
    and "child_text ''host'' server = Some host"
    and "child_text ''port'' server = Some port"
    and "user_id_of P user = Some uid"
    and "child_text ''name'' user = Some nm"
    and "child_text ''avatar'' user = Some url"
  shows "user_entry P (Some server) user =
           Inr (uid, \<lparr>avatar = protocol @ ''://'' @ host @ '':'' @ port @ url, name = Some nm\<rparr>)"
  using assms(4)
  by (auto simp: user_entry_def find_text_child [OF assms(1)] find_text_child [OF assms(2)]
        find_text_child [OF assms(3)] find_text_child [OF assms(5)]
        find_text_child [OF assms(6)] format_text_def user_id_of_def split: option.splits)

lemma get_data_xml_loop_foldl:
  assumes "\<forall>u\<in>set us. user_entry P server u = Inr (f u, g u)"
  shows "get_data_xml_loop P server us result =
           Inr (foldl (\<lambda>r u. AList.update (f u) (g u) r) result us)"
  using assms by (induction us arbitrary: result) simp_all

lemma map_of_foldl_update_last:
  assumes "k < length us"
    and "\<forall>j. k < j \<and> j < length us \<longrightarrow> f (us ! j) \<noteq> f (us ! k)"
  shows "map_of (foldl (\<lambda>r u. AList.update (f u) (g u) r) r0 us) (f (us ! k)) = Some (g (us ! k))"
  using assms
proof (induction us rule: rev_induct)
  case Nil
  then show ?case by simp
next
  case (snoc u us)
  show ?case
  proof (cases "k < length us")
    case True
    have "f u \<noteq> f (us ! k)"
      using snoc.prems(2) [rule_format, of "length us"] True by (simp add: nth_append)
    moreover have "map_of (foldl (\<lambda>r u. AList.update (f u) (g u) r) r0 us) (f (us ! k)) =
                   Some (g (us ! k))"
    proof (rule snoc.IH [OF True], intro allI impI)
      fix j assume "k < j \<and> j < length us"
      then show "f (us ! j) \<noteq> f (us ! k)"
        using snoc.prems(2) [rule_format, of j] by (simp add: nth_append)
    qed
    ultimately show ?thesis
      using True by (simp add: nth_append update_conv')
  next
    case False
    then have "k = length us" using snoc.prems(1) by simp
    then show ?thesis by (simp add: update_conv')
  qed
qed

lemma keys_foldl_update:
  "fst ` set (foldl (\<lambda>r u. AList.update (f u) (g u) r) r0 us) = fst ` set r0 \<union> f ` set us"
proof (induction us rule: rev_induct)
  case Nil
  then show ?case by simp
next
  case (snoc u us)
  have "fst ` set (AList.update k v al) = insert k (fst ` set al)" for k :: 'a and v :: 'b and al
    using dom_update [of k v al] by (simp add: dom_map_of_conv_image_fst)
  with snoc show ?case by auto
qed


text \<open>
  Claim C8. For a well-formed directory document (a \<^verbatim>\<open>server\<close> element with protocol,
  host and port texts, and a \<^verbatim>\<open>users\<close> element whose children each have an integer id
  attribute, a name text and an avatar text) the loader returns a dictionary whose keys
  are exactly the ids of the user elements. Under the id of a user element, unless a
  later user element has the same id and overwrites it, it holds the user's name and
  the avatar URL \<open>protocol @ ''://'' @ host @ '':'' @ port @ fragment\<close>. For the fragment
  \<^verbatim>\<open>/api/images/users/1\<close> and the server http, example.com, 80 the URL is
  \<^verbatim>\<open>http://example.com:80/api/images/users/1\<close>.
\<close>

theorem get_data_xml_records_users:
  "(find_el ''server'' doc = Some server \<and> find_el ''users'' doc = Some users
    \<and> child_text ''protocol'' server = Some protocol
    \<and> child_text ''host'' server = Some host
    \<and> child_text ''port'' server = Some port
    \<and> list_all (well_formed_user P) (children users) \<longrightarrow>
    (\<exists>result. get_data_xml P (Inr doc) = Inr result
       \<and> (\<forall>uid. uid \<in> fst ` set result \<longleftrightarrow>
             (\<exists>u \<in> set (children users). user_id_of P u = Some uid))
       \<and> (\<forall>k < length (children users).
            (\<forall>j. k < j \<and> j < length (children users) \<longrightarrow>
                 user_id_of P (children users ! j) \<noteq> user_id_of P (children users ! k)) \<longrightarrow>
            (\<exists>uid nm url.
               user_id_of P (children users ! k) = Some uid
               \<and> child_text ''name'' (children users ! k) = Some nm
               \<and> child_text ''avatar'' (children users ! k) = Some url
               \<and> map_of result uid =
                   Some \<lparr>avatar = protocol @ ''://'' @ host @ '':'' @ port @ url,
                         name = Some nm\<rparr>))))
   \<and> get_data_xml plain_parsers (Inr (Element ''intranet'' [] None
           [Element ''server'' [] None
              [Element ''host'' [] (Some ''example.com'') [],
               Element ''port'' [] (Some ''80'') [],
               Element ''protocol'' [] (Some ''http'') []],
            Element ''users'' [] None
              [Element ''user'' [(''id'', ''1'')] None
                 [Element ''avatar'' [] (Some ''/api/images/users/1'') [],
                  Element ''name'' [] (Some ''Jan K.'') []]]]))
      = Inr [(1, \<lparr>avatar = ''http://example.com:80/api/images/users/1'',
                  name = Some ''Jan K.''\<rparr>)]"
proof (intro conjI impI)
  assume a: "find_el ''server'' doc = Some server \<and> find_el ''users'' doc = Some users
    \<and> child_text ''protocol'' server = Some protocol
    \<and> child_text ''host'' server = Some host
    \<and> child_text ''port'' server = Some port
    \<and> list_all (well_formed_user P) (children users)"
  let ?us = "children users"
  define f where "f u = the (user_id_of P u)" for u
  define g where "g u = \<lparr>avatar = protocol @ ''://'' @ host @ '':'' @ port @
                          the (child_text ''avatar'' u), name = child_text ''name'' u\<rparr>" for u
  have wf: "\<exists>uid nm url. user_id_of P u = Some uid \<and> child_text ''name'' u = Some nm
              \<and> child_text ''avatar'' u = Some url" if "u \<in> set ?us" for u
    using a that by (auto simp: list_all_iff well_formed_user_def)
  have uid: "user_id_of P u = Some (f u)" if "u \<in> set ?us" for u
    using wf [OF that] by (auto simp: f_def)
  have entry: "user_entry P (Some server) u = Inr (f u, g u)" if "u \<in> set ?us" for u
  proof -
    from wf [OF that] obtain i nm url where
      w: "user_id_of P u = Some i" "child_text ''name'' u = Some nm"
         "child_text ''avatar'' u = Some url"
      by blast
    from a w show ?thesis
      by (simp add: user_entry_well_formed [of server protocol host port P u i nm url]
            f_def g_def)
  qed
  let ?result = "foldl (\<lambda>r u. AList.update (f u) (g u) r) [] ?us"
  have run: "get_data_xml P (Inr doc) = Inr ?result"
    using a get_data_xml_loop_foldl [of ?us P "Some server" f g "[]"] entry
    by (simp add: get_data_xml_def)
  have keys: "uid \<in> fst ` set ?result \<longleftrightarrow> (\<exists>u \<in> set ?us. user_id_of P u = Some uid)" for uid
    using uid by (auto simp: keys_foldl_update)
  have each: "\<exists>uid nm url.
               user_id_of P (?us ! k) = Some uid
               \<and> child_text ''name'' (?us ! k) = Some nm
               \<and> child_text ''avatar'' (?us ! k) = Some url
               \<and> map_of ?result uid =
                   Some \<lparr>avatar = protocol @ ''://'' @ host @ '':'' @ port @ url,
                         name = Some nm\<rparr>"
    if k: "k < length ?us"
      and last: "\<forall>j. k < j \<and> j < length ?us \<longrightarrow>
                 user_id_of P (?us ! j) \<noteq> user_id_of P (?us ! k)" for k
  proof -
    have "\<forall>j. k < j \<and> j < length ?us \<longrightarrow> f (?us ! j) \<noteq> f (?us ! k)"
      using last k uid by (metis nth_mem order_less_trans)
    from map_of_foldl_update_last [OF k this, of g "[]"]
    have m: "map_of ?result (f (?us ! k)) = Some (g (?us ! k))" .
    from wf [of "?us ! k"] k obtain i nm url where
      w: "user_id_of P (?us ! k) = Some i" "child_text ''name'' (?us ! k) = Some nm"
         "child_text ''avatar'' (?us ! k) = Some url"
      by auto
    with m show ?thesis by (simp add: f_def g_def)
  qed
  show "\<exists>result. get_data_xml P (Inr doc) = Inr result
       \<and> (\<forall>uid. uid \<in> fst ` set result \<longleftrightarrow>
             (\<exists>u \<in> set (children users). user_id_of P u = Some uid))
       \<and> (\<forall>k < length (children users).
            (\<forall>j. k < j \<and> j < length (children users) \<longrightarrow>
                 user_id_of P (children users ! j) \<noteq> user_id_of P (children users ! k)) \<longrightarrow>
            (\<exists>uid nm url.
               user_id_of P (children users ! k) = Some uid
               \<and> child_text ''name'' (children users ! k) = Some nm
               \<and> child_text ''avatar'' (children users ! k) = Some url
               \<and> map_of result uid =
                   Some \<lparr>avatar = protocol @ ''://'' @ host @ '':'' @ port @ url,
                         name = Some nm\<rparr>))"
    using run keys each by (intro exI [of _ ?result]) blast
next
  show "get_data_xml plain_parsers (Inr (Element ''intranet'' [] None
           [Element ''server'' [] None
              [Element ''host'' [] (Some ''example.com'') [],
               Element ''port'' [] (Some ''80'') [],
               Element ''protocol'' [] (Some ''http'') []],
            Element ''users'' [] None
              [Element ''user'' [(''id'', ''1'')] None
                 [Element ''avatar'' [] (Some ''/api/images/users/1'') [],
                  Element ''name'' [] (Some ''Jan K.'') []]]]))
      = Inr [(1, \<lparr>avatar = ''http://example.com:80/api/images/users/1'',
                  name = Some ''Jan K.''\<rparr>)]"
    by code_simp
qed


theorem get_data_xml_records_users_witness:
  "find_el ''server'' (Element ''intranet'' [] None
     [(Element ''server'' [] None
      [Element ''host'' [] (Some ''intra.example.org'') [],
       Element ''port'' [] (Some ''443'') [],
       Element ''protocol'' [] (Some ''https'') []]),
      (Element ''users'' [] None
      [Element ''user'' [(''id'', ''10'')] None
         [Element ''avatar'' [] (Some ''/api/images/users/10'') [],
          Element ''name'' [] (Some ''Ann B.'') []],
       Element ''user'' [(''id'', ''11'')] None
         [Element ''avatar'' [] (Some ''/api/images/users/11'') [],
          Element ''name'' [] (Some ''Bob C.'') []]])]) = Some (Element ''server'' [] None
      [Element ''host'' [] (Some ''intra.example.org'') [],
       Element ''port'' [] (Some ''443'') [],
       Element ''protocol'' [] (Some ''https'') []])
   \<and> find_el ''users'' (Element ''intranet'' [] None
     [(Element ''server'' [] None
      [Element ''host'' [] (Some ''intra.example.org'') [],
       Element ''port'' [] (Some ''443'') [],
       Element ''protocol'' [] (Some ''https'') []]),
      (Element ''users'' [] None
      [Element ''user'' [(''id'', ''10'')] None
         [Element ''avatar'' [] (Some ''/api/images/users/10'') [],
          Element ''name'' [] (Some ''Ann B.'') []],
       Element ''user'' [(''id'', ''11'')] None
         [Element ''avatar'' [] (Some ''/api/images/users/11'') [],
          Element ''name'' [] (Some ''Bob C.'') []]])]) = Some (Element ''users'' [] None
      [Element ''user'' [(''id'', ''10'')] None
         [Element ''avatar'' [] (Some ''/api/images/users/10'') [],
          Element ''name'' [] (Some ''Ann B.'') []],
       Element ''user'' [(''id'', ''11'')] None
         [Element ''avatar'' [] (Some ''/api/images/users/11'') [],
          Element ''name'' [] (Some ''Bob C.'') []]])
   \<and> child_text ''protocol'' (Element ''server'' [] None
      [Element ''host'' [] (Some ''intra.example.org'') [],
       Element ''port'' [] (Some ''443'') [],
       Element ''protocol'' [] (Some ''https'') []]) = Some ''https''
   \<and> child_text ''host'' (Element ''server'' [] None
      [Element ''host'' [] (Some ''intra.example.org'') [],
       Element ''port'' [] (Some ''443'') [],
       Element ''protocol'' [] (Some ''https'') []]) = Some ''intra.example.org''
   \<and> child_text ''port'' (Element ''server'' [] None
      [Element ''host'' [] (Some ''intra.example.org'') [],
       Element ''port'' [] (Some ''443'') [],
       Element ''protocol'' [] (Some ''https'') []]) = Some ''443''
   \<and> list_all (well_formed_user plain_parsers) (children (Element ''users'' [] None
      [Element ''user'' [(''id'', ''10'')] None
         [Element ''avatar'' [] (Some ''/api/images/users/10'') [],
          Element ''name'' [] (Some ''Ann B.'') []],
       Element ''user'' [(''id'', ''11'')] None
         [Element ''avatar'' [] (Some ''/api/images/users/11'') [],
          Element ''name'' [] (Some ''Bob C.'') []]]))
   \<and> (\<exists>result. get_data_xml plain_parsers (Inr (Element ''intranet'' [] None
     [(Element ''server'' [] None
      [Element ''host'' [] (Some ''intra.example.org'') [],
       Element ''port'' [] (Some ''443'') [],
       Element ''protocol'' [] (Some ''https'') []]),
      (Element ''users'' [] None
      [Element ''user'' [(''id'', ''10'')] None
         [Element ''avatar'' [] (Some ''/api/images/users/10'') [],
          Element ''name'' [] (Some ''Ann B.'') []],
       Element ''user'' [(''id'', ''11'')] None
         [Element ''avatar'' [] (Some ''/api/images/users/11'') [],
          Element ''name'' [] (Some ''Bob C.'') []]])])) = Inr result
        \<and> map_of result 10 =
            Some \<lparr>avatar = ''https://intra.example.org:443/api/images/users/10'',
                  name = Some ''Ann B.''\<rparr>
        \<and> map_of result 11 =
            Some \<lparr>avatar = ''https://intra.example.org:443/api/images/users/11'',
                  name = Some ''Bob C.''\<rparr>)"
proof -
  let ?doc = "(Element ''intranet'' [] None
     [(Element ''server'' [] None
      [Element ''host'' [] (Some ''intra.example.org'') [],
       Element ''port'' [] (Some ''443'') [],
       Element ''protocol'' [] (Some ''https'') []]),
      (Element ''users'' [] None
      [Element ''user'' [(''id'', ''10'')] None
         [Element ''avatar'' [] (Some ''/api/images/users/10'') [],
          Element ''name'' [] (Some ''Ann B.'') []],
       Element ''user'' [(''id'', ''11'')] None
         [Element ''avatar'' [] (Some ''/api/images/users/11'') [],
          Element ''name'' [] (Some ''Bob C.'') []]])])"
  let ?srv = "(Element ''server'' [] None
      [Element ''host'' [] (Some ''intra.example.org'') [],
       Element ''port'' [] (Some ''443'') [],
       Element ''protocol'' [] (Some ''https'') []])"
  let ?usr = "(Element ''users'' [] None
      [Element ''user'' [(''id'', ''10'')] None
         [Element ''avatar'' [] (Some ''/api/images/users/10'') [],
          Element ''name'' [] (Some ''Ann B.'') []],
       Element ''user'' [(''id'', ''11'')] None
         [Element ''avatar'' [] (Some ''/api/images/users/11'') [],
          Element ''name'' [] (Some ''Bob C.'') []]])"
  have h: "find_el ''server'' ?doc = Some ?srv \<and> find_el ''users'' ?doc = Some ?usr
    \<and> child_text ''protocol'' ?srv = Some ''https''
    \<and> child_text ''host'' ?srv = Some ''intra.example.org''
    \<and> child_text ''port'' ?srv = Some ''443''
    \<and> list_all (well_formed_user plain_parsers) (children ?usr)"
    by code_simp
  have ids: "user_id_of plain_parsers (children ?usr ! 0) = Some 10"
    "user_id_of plain_parsers (children ?usr ! 1) = Some 11"
    by code_simp+
  have texts: "child_text ''name'' (children ?usr ! 0) = Some ''Ann B.''"
    "child_text ''avatar'' (children ?usr ! 0) = Some ''/api/images/users/10''"
    "child_text ''name'' (children ?usr ! 1) = Some ''Bob C.''"
    "child_text ''avatar'' (children ?usr ! 1) = Some ''/api/images/users/11''"
    by code_simp+
  have len: "length (children ?usr) = 2"
    by simp
  from get_data_xml_records_users
    [of ?doc ?srv ?usr "''https''" "''intra.example.org''" "''443''" plain_parsers,
     THEN conjunct1, THEN mp, OF h]
  obtain result where r: "get_data_xml plain_parsers (Inr ?doc) = Inr result"
    and each: "\<And>k. k < length (children ?usr) \<Longrightarrow>
            (\<forall>j. k < j \<and> j < length (children ?usr) \<longrightarrow>
                 user_id_of plain_parsers (children ?usr ! j) \<noteq>
                 user_id_of plain_parsers (children ?usr ! k)) \<Longrightarrow>
            (\<exists>uid nm url.
               user_id_of plain_parsers (children ?usr ! k) = Some uid
               \<and> child_text ''name'' (children ?usr ! k) = Some nm
               \<and> child_text ''avatar'' (children ?usr ! k) = Some url
               \<and> map_of result uid =
                   Some \<lparr>avatar = ''https'' @ ''://'' @ ''intra.example.org'' @ '':'' @
                                 ''443'' @ url,
                         name = Some nm\<rparr>)"
    by blast
  have later0: "\<forall>j. 0 < j \<and> j < length (children ?usr) \<longrightarrow>
                 user_id_of plain_parsers (children ?usr ! j) \<noteq>
                 user_id_of plain_parsers (children ?usr ! 0)"
  proof (intro allI impI)
    fix j :: nat
    assume "0 < j \<and> j < length (children ?usr)"
    then have "j = 1" by (simp only: len) arith
    then show "user_id_of plain_parsers (children ?usr ! j) \<noteq>
                 user_id_of plain_parsers (children ?usr ! 0)"
      by (simp only: ids) simp
  qed
  have later1: "\<forall>j. 1 < j \<and> j < length (children ?usr) \<longrightarrow>
                 user_id_of plain_parsers (children ?usr ! j) \<noteq>
                 user_id_of plain_parsers (children ?usr ! 1)"
    by (simp only: len) arith
  have m0: "map_of result 10 =
            Some \<lparr>avatar = ''https://intra.example.org:443/api/images/users/10'',
                  name = Some ''Ann B.''\<rparr>"
    using each [of 0, OF _ later0] by (simp only: len ids texts) simp
  have m1: "map_of result 11 =
            Some \<lparr>avatar = ''https://intra.example.org:443/api/images/users/11'',
                  name = Some ''Bob C.''\<rparr>"
    using each [of 1, OF _ later1] by (simp only: len ids texts) simp
  from r m0 m1 have "\<exists>result. get_data_xml plain_parsers (Inr ?doc) = Inr result
        \<and> map_of result 10 =
            Some \<lparr>avatar = ''https://intra.example.org:443/api/images/users/10'',
                  name = Some ''Ann B.''\<rparr>
        \<and> map_of result 11 =
            Some \<lparr>avatar = ''https://intra.example.org:443/api/images/users/11'',
                  name = Some ''Bob C.''\<rparr>"
    by blast
  with h show ?thesis by blast
qed

section \<open>Behaviour of the attendance loader on unparsable rows\<close>

lemma get_data_loop_unparsable_date:
  assumes "length row = 4" "int_of P (row ! 0) = Some u" "date_of P (row ! 1) = None"
    and "date_var l = Some d" "start_var l = Some s" "end_var l = Some e"
  shows "get_data_loop P ((i, row) # rest) l data lg =
           get_data_loop P rest (l\<lparr>user_id := Some u\<rparr>)
             (AList.update u
                (AList.update d \<lparr>start = s, end' = e\<rparr>
                   (case map_of data u of None \<Rightarrow> [] | Some m \<Rightarrow> m)) data)
             (lg @ [i])"
  using assms by (simp add: try_parse_def store_def Let_def)

text \<open>
  Claim C1 says that a row of four fields of which one does not parse is logged and
  skipped: it adds and changes no entry, and the load goes on. The loader does log the
  row, but the assignment to \<open>data\<close> stands after the \<^verbatim>\<open>try\<close> statement and runs all the
  same, with whatever the local variables hold. After a good row for user 1, the row
  \<^verbatim>\<open>2,2023-13-40,10:00:00,18:00:00\<close> is logged (row 1) and stores, for user 2, the date
  and times of the row before it; without that row user 2 has no entry. When the bad
  row comes first, \<^verbatim>\<open>date\<close> has never been assigned and the load ends with
  \<^verbatim>\<open>UnboundLocalError\<close>.
\<close>

theorem get_data_stores_after_parse_failure:
  "get_data plain_parsers
     (Some [[''1'', ''2023-01-02'', ''09:00:00'', ''17:00:00''],
            [''2'', ''2023-13-40'', ''10:00:00'', ''18:00:00'']])
   = ([1],
      Inr [(1, [(\<lparr>year = 2023, month = 1, day = 2\<rparr>,
                 \<lparr>start = \<lparr>hour = 9, minute = 0, second = 0\<rparr>,
                  end' = \<lparr>hour = 17, minute = 0, second = 0\<rparr>\<rparr>)]),
           (2, [(\<lparr>year = 2023, month = 1, day = 2\<rparr>,
                 \<lparr>start = \<lparr>hour = 9, minute = 0, second = 0\<rparr>,
                  end' = \<lparr>hour = 17, minute = 0, second = 0\<rparr>\<rparr>)])])
   \<and> get_data plain_parsers
     (Some [[''1'', ''2023-01-02'', ''09:00:00'', ''17:00:00'']])
   = ([],
      Inr [(1, [(\<lparr>year = 2023, month = 1, day = 2\<rparr>,
                 \<lparr>start = \<lparr>hour = 9, minute = 0, second = 0\<rparr>,
                  end' = \<lparr>hour = 17, minute = 0, second = 0\<rparr>\<rparr>)])])
   \<and> get_data plain_parsers
     (Some [[''2'', ''2023-13-40'', ''10:00:00'', ''18:00:00''],
            [''1'', ''2023-01-02'', ''09:00:00'', ''17:00:00'']])
   = ([0], Inl UnboundLocalError)"
  by (intro conjI; code_simp)

end
